theory Spec2Isabelle
  imports Main
begin

section \<open>Python values and exceptions\<close>

text \<open>
  The values that cross the interfaces of the agent core: what \<^verbatim>\<open>json.loads\<close> decodes,
  what a tool receives as arguments and returns, and what a caller may pass where the
  source checks \<^verbatim>\<open>isinstance(x, str)\<close>. A \<^verbatim>\<open>dict\<close> keeps its keys in insertion order,
  so it is an association list. A \<^verbatim>\<open>float\<close> is kept as the numeral text it was read
  from: no claim depends on its value.
\<close>

datatype py_value =
    PNone
  | PBool bool
  | PInt int
  | PFloat string
  | PStr string
  | PList "py_value list"
  | PDict "(string \<times> py_value) list"

text \<open>Exceptions are values; the constructor is the Python class, the argument its message.\<close>

datatype exn =
    TypeError string
  | RuntimeError string
  | AttributeError string
  | JSONDecodeError
  | RecursionError
  | ValueError

fun is_str :: "py_value \<Rightarrow> bool" where
  "is_str (PStr s) = True"
| "is_str v = False"


text \<open>
  \<^verbatim>\<open>xs[k:]\<close> for a Python list: a negative start counts from the end and is clamped at
  the front; a start past the end gives the empty list.
\<close>

definition py_slice_from :: "'a list \<Rightarrow> int \<Rightarrow> 'a list" where
  "py_slice_from xs k =
     (if k < 0 then drop (nat (int (length xs) + k)) xs else drop (nat k) xs)"

section \<open>Conversation memory (agent\_core/memory.py)\<close>

record message =
  role :: string
  content :: string

record AgentMemory =
  max_messages :: int
  messages :: "message list"

text \<open>
  \<^verbatim>\<open>add_message\<close> mutates the memory or raises. The model returns the outcome together
  with the memory as it is afterwards, so that the state left behind by a raise can be
  observed.
\<close>

definition add_message ::
  "AgentMemory \<Rightarrow> py_value \<Rightarrow> py_value \<Rightarrow> (exn + unit) \<times> AgentMemory" where
  "add_message m r c =
     (if \<not> is_str r \<or> \<not> is_str c
      then (Inl (TypeError ''Both 'role' and 'content' must be strings.''), m)
      else
        (case (r, c) of
          (PStr rs, PStr cs) \<Rightarrow>
            (let ms = messages m @ [\<lparr>role = rs, content = cs\<rparr>] in
             if int (length ms) > max_messages m
             then (Inr (), m\<lparr>messages := py_slice_from ms (- max_messages m)\<rparr>)
             else (Inr (), m\<lparr>messages := ms\<rparr>))
        | _ \<Rightarrow> (Inl (TypeError ''Both 'role' and 'content' must be strings.''), m)))"

text \<open>A run of calls with string arguments, none of which can raise.\<close>

fun add_messages :: "AgentMemory \<Rightarrow> (string \<times> string) list \<Rightarrow> AgentMemory" where
  "add_messages m [] = m"
| "add_messages m ((r, c) # xs) = add_messages (snd (add_message m (PStr r) (PStr c))) xs"

definition mk_message :: "string \<times> string \<Rightarrow> message" where
  "mk_message p = \<lparr>role = fst p, content = snd p\<rparr>"

definition last_n :: "nat \<Rightarrow> 'a list \<Rightarrow> 'a list" where
  "last_n n xs = drop (length xs - n) xs"

definition clear :: "AgentMemory \<Rightarrow> AgentMemory" where
  "clear m = m\<lparr>messages := []\<rparr>"

section \<open>Text helpers of the Python runtime\<close>

text \<open>
  A Python \<^verbatim>\<open>str\<close> is modelled by its bytes (UTF-8), so every ASCII character is one
  \<open>char\<close>. \<open>py_repr_str\<close> is \<^verbatim>\<open>repr\<close> of a string: single quotes unless the text has a
  single quote and no double quote; backslash, the chosen quote, tab, newline and carriage
  return escaped; other ASCII control characters as \<^verbatim>\<open>\xNN\<close>. Bytes from 0x80 on are
  kept, which is what \<^verbatim>\<open>repr\<close> does for printable characters outside ASCII; the
  characters outside ASCII that \<^verbatim>\<open>repr\<close> escapes (the no-break space, for one) are
  not covered.
\<close>

definition hexdigit :: "nat \<Rightarrow> char" where
  "hexdigit n = ''0123456789abcdef'' ! (n mod 16)"

definition py_repr_char :: "char \<Rightarrow> char \<Rightarrow> string" where
  "py_repr_char q c =
     (if c = CHR 0x5C then [CHR 0x5C, CHR 0x5C]
      else if c = q then [CHR 0x5C, q]
      else if c = CHR 0x09 then [CHR 0x5C, CHR ''t'']
      else if c = CHR 0x0A then [CHR 0x5C, CHR ''n'']
      else if c = CHR 0x0D then [CHR 0x5C, CHR ''r'']
      else if (of_char c :: nat) < 32 \<or> (of_char c :: nat) = 127
        then [CHR 0x5C, CHR ''x'', hexdigit (of_char c div 16), hexdigit (of_char c)]
      else [c])"

definition py_repr_str :: "string \<Rightarrow> string" where
  "py_repr_str s =
     (let q = (if CHR 0x27 \<in> set s \<and> CHR 0x22 \<notin> set s then CHR 0x22 else CHR 0x27)
      in [q] @ concat (map (py_repr_char q) s) @ [q])"

fun py_join :: "string \<Rightarrow> string list \<Rightarrow> string" where
  "py_join sep [] = []"
| "py_join sep [x] = x"
| "py_join sep (x # y # ys) = x @ sep @ py_join sep (y # ys)"

text \<open>\<^verbatim>\<open>repr\<close> of a list of strings, as an f-string renders it.\<close>

definition py_repr_str_list :: "string list \<Rightarrow> string" where
  "py_repr_str_list xs = ''['' @ py_join '', '' (map py_repr_str xs) @ '']''"

text \<open>\<^verbatim>\<open>str.strip()\<close>, for the ASCII white space.\<close>

definition py_isspace :: "char \<Rightarrow> bool" where
  "py_isspace c = ((of_char c :: nat) \<in> {9, 10, 11, 12, 13, 28, 29, 30, 31, 32})"

definition py_strip :: "string \<Rightarrow> string" where
  "py_strip s = rev (dropWhile py_isspace (rev (dropWhile py_isspace s)))"

section \<open>Dictionaries\<close>

text \<open>
  A \<^verbatim>\<open>dict\<close> is an association list in insertion order. Assigning to a key that is
  present replaces its value in place; a new key goes to the end.
\<close>

fun dict_set :: "('k \<times> 'v) list \<Rightarrow> 'k \<Rightarrow> 'v \<Rightarrow> ('k \<times> 'v) list" where
  "dict_set [] k v = [(k, v)]"
| "dict_set ((k', v') # kvs) k v =
     (if k' = k then (k, v) # kvs else (k', v') # dict_set kvs k v)"

definition dict_get :: "('k \<times> 'v) list \<Rightarrow> 'k \<Rightarrow> 'v option" where
  "dict_get d k = map_of d k"

definition dict_keys :: "('k \<times> 'v) list \<Rightarrow> 'k list" where
  "dict_keys d = map fst d"

section \<open>Tool catalog and action registry (agent\_core/registry.py)\<close>

text \<open>
  The declared type of a parameter, as \<^verbatim>\<open>get_type_hints\<close> reports it: one of the six
  classes \<^verbatim>\<open>_get_json_type\<close> compares with, or anything else (a generic alias such as
  \<^verbatim>\<open>List[str]\<close>, \<^verbatim>\<open>Optional[int]\<close>, a user class), kept by its name.
\<close>

datatype py_type = Tstr | Tint | Tfloat | Tbool | Tlist | Tdict | Tother string

fun get_json_type :: "py_type \<Rightarrow> string" where
  "get_json_type Tstr = ''string''"
| "get_json_type Tint = ''integer''"
| "get_json_type Tfloat = ''number''"
| "get_json_type Tbool = ''boolean''"
| "get_json_type Tlist = ''array''"
| "get_json_type Tdict = ''object''"
| "get_json_type (Tother t) = ''string''"

text \<open>
  The outcome of calling a tool: it returns a value, or it raises an exception of class
  \<^verbatim>\<open>Exception\<close>, given by its \<^verbatim>\<open>str\<close> and the traceback text. System-exiting
  exceptions (\<^verbatim>\<open>KeyboardInterrupt\<close>, \<^verbatim>\<open>SystemExit\<close>) end the interpreter and are not
  outcomes of a tool in this model.
\<close>

datatype call_outcome = Returns py_value | Raises string string

type_synonym kwargs = "(string \<times> py_value) list"

text \<open>
  A parameter schema: the dictionary
  \<^verbatim>\<open>{"type": ..., "properties": {name: {"type": t}}, "required": [...]}\<close>. An explicit
  override is any dictionary, so each key may be absent; the empty dictionary has none.
\<close>

record schema =
  stype :: "string option"
  properties :: "(string \<times> string) list option"
  required :: "string list option"

definition empty_schema :: schema where
  "empty_schema = \<lparr>stype = None, properties = None, required = None\<rparr>"

definition schema_truthy :: "schema \<Rightarrow> bool" where
  "schema_truthy sc = (stype sc \<noteq> None \<or> properties sc \<noteq> None \<or> required sc \<noteq> None)"

text \<open>One parameter of a signature, as \<^verbatim>\<open>inspect.signature\<close> and the type hints give it.\<close>

record param =
  param_name :: string
  annotation :: "py_type option"
  has_default :: bool

text \<open>A Python function offered for registration.\<close>

record py_function =
  fn_name :: string
  fn_doc :: "string option"
  fn_params :: "param list"
  fn_call :: "kwargs \<Rightarrow> call_outcome"

record tool_meta =
  tool_name :: string
  tool_description :: string
  tool_parameters :: schema
  tool_function :: "kwargs \<Rightarrow> call_outcome"
  tool_terminal :: bool
  tags :: "string list"

text \<open>
  The loop of \<^verbatim>\<open>_get_tool_metadata\<close> over the signature, with the schema under
  construction as accumulator: \<open>ps\<close> is \<^verbatim>\<open>args_schema["properties"]\<close> and \<open>rq\<close> is
  \<^verbatim>\<open>args_schema["required"]\<close>.
\<close>

fun derive_loop ::
  "param list \<Rightarrow> (string \<times> string) list \<Rightarrow> string list
     \<Rightarrow> (string \<times> string) list \<times> string list" where
  "derive_loop [] ps rq = (ps, rq)"
| "derive_loop (p # rest) ps rq =
     (if param_name p \<in> set [''action_context'', ''action_agent'']
      then derive_loop rest ps rq
      else
        (let param_type = (case annotation p of None \<Rightarrow> Tstr | Some t \<Rightarrow> t);
             ps' = dict_set ps (param_name p) (get_json_type param_type)
         in if \<not> has_default p
            then derive_loop rest ps' (rq @ [param_name p])
            else derive_loop rest ps' rq))"

definition derive_schema :: "param list \<Rightarrow> schema" where
  "derive_schema params =
     (case derive_loop params [] [] of
        (ps, rq) \<Rightarrow> \<lparr>stype = Some ''object'', properties = Some ps, required = Some rq\<rparr>)"

definition get_tool_metadata ::
  "py_function \<Rightarrow> string option \<Rightarrow> string option \<Rightarrow> schema option \<Rightarrow> bool
     \<Rightarrow> string list option \<Rightarrow> tool_meta" where
  "get_tool_metadata f tname descr parameters_override term tgs =
     \<lparr>tool_name = (case tname of Some n \<Rightarrow> (if n \<noteq> [] then n else fn_name f) | None \<Rightarrow> fn_name f),
      tool_description =
        (let dflt = (case fn_doc f of
                       Some d \<Rightarrow> (if d \<noteq> [] then py_strip d else ''No description provided.'')
                     | None \<Rightarrow> ''No description provided.'')
         in case descr of Some d \<Rightarrow> (if d \<noteq> [] then d else dflt) | None \<Rightarrow> dflt),
      tool_parameters =
        (case parameters_override of
           Some ov \<Rightarrow> (if schema_truthy ov then ov else derive_schema (fn_params f))
         | None \<Rightarrow> derive_schema (fn_params f)),
      tool_function = fn_call f,
      tool_terminal = term,
      tags = (case tgs of Some ts \<Rightarrow> ts | None \<Rightarrow> [])\<rparr>"

text \<open>The two process-wide tables.\<close>

record catalog =
  TOOLS :: "(string \<times> tool_meta) list"
  TOOLS_BY_TAG :: "(string \<times> string list) list"

fun add_tags :: "(string \<times> string list) list \<Rightarrow> string list \<Rightarrow> string
                   \<Rightarrow> (string \<times> string list) list" where
  "add_tags bt [] n = bt"
| "add_tags bt (tag # ts) n =
     add_tags (dict_set bt tag ((case dict_get bt tag of None \<Rightarrow> [] | Some ns \<Rightarrow> ns) @ [n])) ts n"

definition register_tool ::
  "catalog \<Rightarrow> py_function \<Rightarrow> string option \<Rightarrow> string option \<Rightarrow> schema option \<Rightarrow> bool
     \<Rightarrow> string list option \<Rightarrow> catalog" where
  "register_tool cat f tname descr parameters_override term tgs =
     (let metadata = get_tool_metadata f tname descr parameters_override term tgs
      in \<lparr>TOOLS = dict_set (TOOLS cat) (tool_name metadata) metadata,
          TOOLS_BY_TAG = add_tags (TOOLS_BY_TAG cat) (tags metadata) (tool_name metadata)\<rparr>)"

record Action =
  name :: string
  func :: "kwargs \<Rightarrow> call_outcome"
  description :: string
  parameters :: schema
  terminal :: bool

record registry =
  actions :: "(string \<times> Action) list"
  terminate_tool :: "tool_meta option"

definition register :: "registry \<Rightarrow> Action \<Rightarrow> registry" where
  "register r a = r\<lparr>actions := dict_set (actions r) (name a) a\<rparr>"

definition get_action :: "registry \<Rightarrow> string \<Rightarrow> Action option" where
  "get_action r n = dict_get (actions r) n"

definition get_actions :: "registry \<Rightarrow> Action list" where
  "get_actions r = map snd (actions r)"

definition action_of_meta :: "string \<Rightarrow> tool_meta \<Rightarrow> Action" where
  "action_of_meta n meta =
     \<lparr>name = n, func = tool_function meta, description = tool_description meta,
      parameters = tool_parameters meta, terminal = tool_terminal meta\<rparr>"

text \<open>
  \<^verbatim>\<open>if xs and ...\<close>: an optional list counts as given when it is neither \<^verbatim>\<open>None\<close>
  nor empty.
\<close>

fun given :: "'a list option \<Rightarrow> bool" where
  "given None = False"
| "given (Some xs) = (xs \<noteq> [])"

definition mentions :: "'a list option \<Rightarrow> 'a \<Rightarrow> bool" where
  "mentions xs x = (case xs of None \<Rightarrow> False | Some ys \<Rightarrow> x \<in> set ys)"

definition any_tag :: "string list option \<Rightarrow> tool_meta \<Rightarrow> bool" where
  "any_tag tgs meta = (case tgs of None \<Rightarrow> False | Some ts \<Rightarrow> list_ex (\<lambda>tag. tag \<in> set (tags meta)) ts)"

text \<open>The loop of \<^verbatim>\<open>PythonActionRegistry.__init__\<close> over \<^verbatim>\<open>TOOLS.items()\<close>.\<close>

fun init_loop ::
  "string list option \<Rightarrow> string list option \<Rightarrow> (string \<times> tool_meta) list \<Rightarrow> registry
     \<Rightarrow> registry" where
  "init_loop tgs tool_names [] r = r"
| "init_loop tgs tool_names ((n, meta) # rest) r =
     (let r1 = (if n = ''terminate'' then r\<lparr>terminate_tool := Some meta\<rparr> else r)
      in if given tool_names \<and> \<not> mentions tool_names n then init_loop tgs tool_names rest r1
         else if given tgs \<and> \<not> any_tag tgs meta then init_loop tgs tool_names rest r1
         else init_loop tgs tool_names rest (register r1 (action_of_meta n meta)))"

definition PythonActionRegistry ::
  "catalog \<Rightarrow> string list option \<Rightarrow> string list option \<Rightarrow> registry" where
  "PythonActionRegistry cat tgs tool_names =
     init_loop tgs tool_names (TOOLS cat) \<lparr>actions = [], terminate_tool = None\<rparr>"

definition register_terminate_tool :: "registry \<Rightarrow> exn + registry" where
  "register_terminate_tool r =
     (case terminate_tool r of
        None \<Rightarrow> Inl (RuntimeError ''Terminate tool not found in registry.'')
      | Some meta \<Rightarrow> Inr (register r (action_of_meta ''terminate'' meta)))"

text \<open>
  The type \<^verbatim>\<open>type_hints.get(name, str)\<close> of a parameter, and the parameters the loop of
  \<^verbatim>\<open>_get_tool_metadata\<close> does not skip: all but the two injected ones.
\<close>

definition declared_type :: "param \<Rightarrow> py_type" where
  "declared_type p = (case annotation p of None \<Rightarrow> Tstr | Some t \<Rightarrow> t)"

definition model_supplied :: "param list \<Rightarrow> param list" where
  "model_supplied params =
     filter (\<lambda>p. param_name p \<noteq> ''action_context'' \<and> param_name p \<noteq> ''action_agent'') params"

text \<open>
  A catalog as the tool modules build it: two of the repository's tools, registered with
  the decorator's arguments of the source.
\<close>

definition read_project_file_fn :: py_function where
  "read_project_file_fn =
     \<lparr>fn_name = ''read_project_file'', fn_doc = Some ''Read a file.'',
      fn_params = [\<lparr>param_name = ''name'', annotation = Some Tstr, has_default = False\<rparr>],
      fn_call = (\<lambda>a. Returns (PStr ''text''))\<rparr>"

definition terminate_fn :: py_function where
  "terminate_fn =
     \<lparr>fn_name = ''terminate'', fn_doc = Some ''Terminate the agent.'',
      fn_params = [\<lparr>param_name = ''message'', annotation = Some Tstr, has_default = False\<rparr>],
      fn_call = (\<lambda>a. Returns (PStr ''bye''))\<rparr>"

definition example_catalog :: catalog where
  "example_catalog =
     register_tool
       (register_tool \<lparr>TOOLS = [], TOOLS_BY_TAG = []\<rparr> read_project_file_fn
          None None None False (Some [''file_operations'', ''read'']))
       terminate_fn None None None True (Some [''system''])"

section \<open>Execution environment (agent\_core/environment.py)\<close>

text \<open>
  What a run does to the world is kept as a trace: every call of a tool's function
  (\<open>Invoked\<close>), every call of the post-execution hook (\<open>Hooked\<close>) and every call of the
  language model's \<^verbatim>\<open>complete\<close> (\<open>Completed\<close>) is an event. The clock reading that
  \<^verbatim>\<open>_now_iso\<close> formats is part of the world.
\<close>

datatype event =
    Invoked string kwargs
  | Hooked string
  | Completed

record world =
  now :: string
  events :: "event list"

record ExecutionRecord =
  tool_executed :: bool
  action_name :: string
  args_used :: kwargs
  result :: py_value
  error :: "string option"
  traceback :: "string option"
  timestamp :: string

record Environment =
  dry_run :: bool
  on_post_execute :: "(Action \<Rightarrow> kwargs \<Rightarrow> py_value \<Rightarrow> call_outcome) option"
  default_max_message_length :: int

definition validate_args :: "Action \<Rightarrow> kwargs \<Rightarrow> string option" where
  "validate_args action args =
     (let req = (case required (parameters action) of None \<Rightarrow> [] | Some rq \<Rightarrow> rq);
          missing = filter (\<lambda>p. p \<notin> set (dict_keys args)) req
      in if missing \<noteq> []
         then Some (''Missing required parameters: '' @ py_repr_str_list missing)
         else None)"

definition execute_action ::
  "Environment \<Rightarrow> Action \<Rightarrow> kwargs \<Rightarrow> world \<Rightarrow> ExecutionRecord \<times> world" where
  "execute_action env action args w =
     (let record = \<lparr>tool_executed = False, action_name = name action, args_used = args,
                    result = PNone, error = None, traceback = None, timestamp = now w\<rparr>
      in case validate_args action args of
           Some validation_err \<Rightarrow> (record\<lparr>error := Some validation_err\<rparr>, w)
         | None \<Rightarrow>
             if dry_run env
             then (record\<lparr>tool_executed := False, result := PNone\<rparr>, w)
             else
               (let w1 = w\<lparr>events := events w @ [Invoked (name action) args]\<rparr>
                in case func action args of
                     Returns res \<Rightarrow>
                       (record\<lparr>tool_executed := True, result := res\<rparr>,
                        (case on_post_execute env of
                           None \<Rightarrow> w1
                         | Some hook \<Rightarrow>
                             (case hook action args res of
                                Returns u \<Rightarrow> w1\<lparr>events := events w1 @ [Hooked (name action)]\<rparr>
                              | Raises msg tb \<Rightarrow> w1\<lparr>events := events w1 @ [Hooked (name action)]\<rparr>)))
                   | Raises msg tb \<Rightarrow>
                       (record\<lparr>error := Some msg, traceback := Some tb\<rparr>, w1)))"

text \<open>How often the function of the action called \<open>n\<close> was invoked in a trace.\<close>

fun invocations :: "string \<Rightarrow> event list \<Rightarrow> nat" where
  "invocations n [] = 0"
| "invocations n (Invoked n' args # es) = (if n' = n then 1 else 0) + invocations n es"
| "invocations n (e # es) = invocations n es"

text \<open>
  The names \<^verbatim>\<open>_validate_args\<close> requires of an action, and those of them that a given
  argument dictionary lacks (the list \<^verbatim>\<open>missing\<close> of the source).
\<close>

definition required_names :: "Action \<Rightarrow> string list" where
  "required_names action = (case required (parameters action) of None \<Rightarrow> [] | Some rq \<Rightarrow> rq)"

definition missing_names :: "Action \<Rightarrow> kwargs \<Rightarrow> string list" where
  "missing_names action args = filter (\<lambda>p. p \<notin> set (dict_keys args)) (required_names action)"

section \<open>JSON decoding (the standard library's json.loads)\<close>

text \<open>
  \<^verbatim>\<open>parse_response\<close> rests on \<^verbatim>\<open>json.loads\<close>, which is standard library code. It is
  modelled here in two passes. The first cuts the text into tokens: punctuation, string
  literals with their escapes decoded (\<^verbatim>\<open>\uXXXX\<close> escapes and surrogate pairs become
  UTF-8 bytes; control characters inside a literal are refused, as in strict mode),
  numbers by the longest match of
  \<^verbatim>\<open>-?(0|[1-9][0-9]*)(\.[0-9]+)?([eE][-+]?[0-9]+)?\<close>, and the literals \<^verbatim>\<open>null\<close>,
  \<^verbatim>\<open>true\<close>, \<^verbatim>\<open>false\<close>, \<^verbatim>\<open>NaN\<close>, \<^verbatim>\<open>Infinity\<close>, \<^verbatim>\<open>-Infinity\<close>; white space is
  blank, tab, line feed and carriage return. A position where no token starts gives the
  token \<open>Bad\<close> and ends the pass, so nothing behind the first lexical failure is looked
  at. The second pass runs the grammar over the tokens from left to right with an
  explicit stack of open containers and stops at the first failure, as the single scan of
  the decoder does.

  A failure of the grammar is a \<^verbatim>\<open>JSONDecodeError\<close>. Two other failures come from the
  interpreter and have other classes. The scanner recurses once for every container that
  is open, and raises \<^verbatim>\<open>RecursionError\<close> when the recursion limit is reached. The
  conversion of an integer literal raises \<^verbatim>\<open>ValueError\<close> when the literal has more
  digits than \<^verbatim>\<open>sys.get_int_max_str_digits()\<close> allows (CPython 3.11 and later); that
  limit is 0, which switches the check off, or at least 640, and a literal of at most 640
  digits is always converted. Both limits are settings of the running interpreter, so
  they are a parameter of the model: \<open>nesting_budget\<close> is the number of containers that
  can be open at once in a call of \<^verbatim>\<open>json.loads\<close> (what is left of the recursion limit
  when the scanner starts), \<open>int_max_str_digits\<close> is the digit limit.
\<close>

record interpreter =
  nesting_budget :: nat
  int_max_str_digits :: nat

definition is_digit :: "char \<Rightarrow> bool" where
  "is_digit c = (48 \<le> (of_char c :: nat) \<and> (of_char c :: nat) \<le> 57)"

definition is_json_space :: "char \<Rightarrow> bool" where
  "is_json_space c = (c = CHR '' '' \<or> c = CHR 0x09 \<or> c = CHR 0x0A \<or> c = CHR 0x0D)"

definition int_of_digits :: "string \<Rightarrow> int" where
  "int_of_digits ds = foldl (\<lambda>a c. 10 * a + int (of_char c - 48)) 0 ds"

definition hexval :: "char \<Rightarrow> nat option" where
  "hexval c =
     (let n = (of_char c :: nat) in
      if 48 \<le> n \<and> n \<le> 57 then Some (n - 48)
      else if 97 \<le> n \<and> n \<le> 102 then Some (n - 87)
      else if 65 \<le> n \<and> n \<le> 70 then Some (n - 55)
      else None)"

definition hex4 :: "string \<Rightarrow> nat option" where
  "hex4 s =
     (case s of
        [a, b, c, d] \<Rightarrow>
          (case (hexval a, hexval b, hexval c, hexval d) of
             (Some w, Some x, Some y, Some z) \<Rightarrow> Some (((w * 16 + x) * 16 + y) * 16 + z)
           | _ \<Rightarrow> None)
      | _ \<Rightarrow> None)"

definition utf8 :: "nat \<Rightarrow> string" where
  "utf8 cp =
     (if cp < 0x80 then [char_of cp]
      else if cp < 0x800 then [char_of (0xC0 + cp div 64), char_of (0x80 + cp mod 64)]
      else if cp < 0x10000
        then [char_of (0xE0 + cp div 4096), char_of (0x80 + cp div 64 mod 64),
              char_of (0x80 + cp mod 64)]
      else [char_of (0xF0 + cp div 262144), char_of (0x80 + cp div 4096 mod 64),
            char_of (0x80 + cp div 64 mod 64), char_of (0x80 + cp mod 64)])"

definition simple_escape :: "char \<Rightarrow> char option" where
  "simple_escape e =
     (if e = CHR 0x22 then Some (CHR 0x22)
      else if e = CHR 0x5C then Some (CHR 0x5C)
      else if e = CHR ''/'' then Some (CHR ''/'')
      else if e = CHR ''b'' then Some (CHR 0x08)
      else if e = CHR ''f'' then Some (CHR 0x0C)
      else if e = CHR ''n'' then Some (CHR 0x0A)
      else if e = CHR ''r'' then Some (CHR 0x0D)
      else if e = CHR ''t'' then Some (CHR 0x09)
      else None)"

fun scan_string :: "string \<Rightarrow> string \<Rightarrow> (string \<times> string) option" where
  "scan_string [] acc = None"
| "scan_string (c # cs) acc =
     (if c = CHR 0x22 then Some (acc, cs)
      else if c = CHR 0x5C then
        (case cs of
           [] \<Rightarrow> None
         | e # cs' \<Rightarrow>
             if e = CHR ''u'' then
               (case hex4 (take 4 cs') of
                  None \<Rightarrow> None
                | Some cp \<Rightarrow>
                    if 0xD800 \<le> cp \<and> cp \<le> 0xDBFF \<and> take 2 (drop 4 cs') = [CHR 0x5C, CHR ''u'']
                    then
                      (case hex4 (take 4 (drop 6 cs')) of
                         None \<Rightarrow> None
                       | Some cp2 \<Rightarrow>
                           if 0xDC00 \<le> cp2 \<and> cp2 \<le> 0xDFFF
                           then scan_string (drop 10 cs')
                                  (acc @ utf8 (0x10000 + (cp - 0xD800) * 1024 + (cp2 - 0xDC00)))
                           else scan_string (drop 4 cs') (acc @ utf8 cp))
                    else scan_string (drop 4 cs') (acc @ utf8 cp))
             else
               (case simple_escape e of
                  None \<Rightarrow> None
                | Some ch \<Rightarrow> scan_string cs' (acc @ [ch])))
      else if (of_char c :: nat) < 32 then None
      else scan_string cs (acc @ [c]))"

definition int_part :: "string \<Rightarrow> string" where
  "int_part s =
     (case s of
        [] \<Rightarrow> []
      | d # ds \<Rightarrow>
          if d = CHR ''0'' then [d]
          else if is_digit d then d # takeWhile is_digit ds
          else [])"

definition frac_part :: "string \<Rightarrow> string" where
  "frac_part s =
     (case s of
        p # f # fs \<Rightarrow>
          if p = CHR ''.'' \<and> is_digit f then p # f # takeWhile is_digit fs else []
      | _ \<Rightarrow> [])"

definition exp_part :: "string \<Rightarrow> string" where
  "exp_part s =
     (case s of
        [] \<Rightarrow> []
      | e # r \<Rightarrow>
          if e = CHR ''e'' \<or> e = CHR ''E'' then
            (let sg = (case r of
                         [] \<Rightarrow> []
                       | c # r2 \<Rightarrow> if c = CHR ''+'' \<or> c = CHR ''-'' then [c] else [])
             in case drop (length sg) r of
                  [] \<Rightarrow> []
                | d # ds \<Rightarrow> if is_digit d then e # sg @ d # takeWhile is_digit ds else [])
          else [])"


text \<open>
  An integer literal is a token of its own: it carries its value and the number of its
  digits (the sign is not counted), which is what the digit limit is compared with when
  the literal is converted.
\<close>

datatype token =
    LBrace | RBrace | LBracket | RBracket | Colon | Comma
  | Scalar py_value
  | Integer int nat
  | Bad

definition match_number :: "string \<Rightarrow> (token \<times> nat) option" where
  "match_number s =
     (let sg = (case s of [] \<Rightarrow> [] | c # cs \<Rightarrow> if c = CHR ''-'' then [c] else []);
          ip = int_part (drop (length sg) s)
      in if ip = [] then None
         else
           (let fp = frac_part (drop (length (sg @ ip)) s);
                ep = exp_part (drop (length (sg @ ip @ fp)) s)
            in if fp = [] \<and> ep = []
               then Some (Integer ((if sg = [] then 1 else - 1) * int_of_digits ip) (length ip),
                          length (sg @ ip))
               else Some (Scalar (PFloat (sg @ ip @ fp @ ep)), length (sg @ ip @ fp @ ep))))"

definition starts_with :: "string \<Rightarrow> string \<Rightarrow> bool" where
  "starts_with s p = (take (length p) s = p)"

definition scan_scalar :: "string \<Rightarrow> (token \<times> nat) option" where
  "scan_scalar s =
     (if starts_with s ''null'' then Some (Scalar PNone, 4)
      else if starts_with s ''true'' then Some (Scalar (PBool True), 4)
      else if starts_with s ''false'' then Some (Scalar (PBool False), 5)
      else
        (case match_number s of
           Some r \<Rightarrow> Some r
         | None \<Rightarrow>
             if starts_with s ''NaN'' then Some (Scalar (PFloat ''NaN''), 3)
             else if starts_with s ''Infinity'' then Some (Scalar (PFloat ''Infinity''), 8)
             else if starts_with s ''-Infinity'' then Some (Scalar (PFloat ''-Infinity''), 9)
             else None))"

text \<open>The lexer continues behind each token, on a shorter text.\<close>

lemma scan_string_shorter:
  "scan_string s acc = Some (str, rest) \<Longrightarrow> length rest < length s"
proof (induction s acc rule: scan_string.induct)
  case (1 acc)
  then show ?case by simp
next
  case (2 c cs acc)
  then show ?case
    by (auto split: if_splits list.splits option.splits; fastforce)
qed

lemma match_number_pos: "match_number s = Some (v, n) \<Longrightarrow> 0 < n"
  by (auto simp: match_number_def Let_def split: if_splits)

lemma scan_scalar_pos: "scan_scalar s = Some (v, n) \<Longrightarrow> 0 < n"
  by (auto simp: scan_scalar_def split: if_splits option.splits dest: match_number_pos)

function lex :: "string \<Rightarrow> token list" where
  "lex [] = []"
| "lex (c # cs) =
     (if is_json_space c then lex cs
      else if c = CHR ''{'' then LBrace # lex cs
      else if c = CHR ''}'' then RBrace # lex cs
      else if c = CHR ''['' then LBracket # lex cs
      else if c = CHR '']'' then RBracket # lex cs
      else if c = CHR '':'' then Colon # lex cs
      else if c = CHR '','' then Comma # lex cs
      else if c = CHR 0x22 then
        (case scan_string cs [] of
           None \<Rightarrow> [Bad]
         | Some (str, rest) \<Rightarrow> Scalar (PStr str) # lex rest)
      else
        (case scan_scalar (c # cs) of
           None \<Rightarrow> [Bad]
         | Some (t, n) \<Rightarrow> t # lex (drop n (c # cs))))"
  by pat_completeness auto
termination
proof (relation "measure length")
  show "wf (measure length)" by simp
next
  fix c cs x2 x y
  assume "scan_string cs [] = Some x2" and "(x, y) = x2"
  then have "length y < length cs" using scan_string_shorter [of cs "[]" x y] by simp
  then show "(y, c # cs) \<in> measure length" by simp
next
  fix c cs x2 x y
  assume "scan_scalar (c # cs) = Some x2" and "(x, y) = x2"
  then have "0 < y" using scan_scalar_pos [of "c # cs" x y] by simp
  then show "(drop y (c # cs), c # cs) \<in> measure length" by simp
qed simp_all

datatype frame =
    InArray "py_value list"
  | InObject "(string \<times> py_value) list"
  | InMember "(string \<times> py_value) list" string

datatype expect =
    Value
  | ValueOrEnd
  | KeyOrEnd
  | Key
  | ColonAfter string
  | CommaOrEnd
  | Finished py_value

text \<open>
  A value that ends closes into the container on top of the stack; a key that repeats
  replaces the earlier value, as assignment to a \<^verbatim>\<open>dict\<close> does.
\<close>

fun close_value :: "py_value \<Rightarrow> frame list \<Rightarrow> exn + (frame list \<times> expect)" where
  "close_value v [] = Inr ([], Finished v)"
| "close_value v (InArray xs # st) = Inr (InArray (xs @ [v]) # st, CommaOrEnd)"
| "close_value v (InMember d k # st) = Inr (InObject (dict_set d k v) # st, CommaOrEnd)"
| "close_value v (InObject d # st) = Inl JSONDecodeError"

text \<open>
  A value that starts: a scalar is complete at once, an integer literal is converted
  first, and a bracket or a brace opens a container, which takes one level of the
  nesting budget.
\<close>

fun open_value :: "interpreter \<Rightarrow> token \<Rightarrow> frame list \<Rightarrow> exn + (frame list \<times> expect)" where
  "open_value lim (Scalar v) st = close_value v st"
| "open_value lim (Integer i digits) st =
     (if 640 < digits \<and> int_max_str_digits lim \<noteq> 0 \<and> int_max_str_digits lim < digits
      then Inl ValueError
      else close_value (PInt i) st)"
| "open_value lim LBracket st =
     (if nesting_budget lim \<le> length st then Inl RecursionError
      else Inr (InArray [] # st, ValueOrEnd))"
| "open_value lim LBrace st =
     (if nesting_budget lim \<le> length st then Inl RecursionError
      else Inr (InObject [] # st, KeyOrEnd))"
| "open_value lim t st = Inl JSONDecodeError"

fun parse_step ::
  "interpreter \<Rightarrow> frame list \<Rightarrow> expect \<Rightarrow> token \<Rightarrow> exn + (frame list \<times> expect)" where
  "parse_step lim st Value t = open_value lim t st"
| "parse_step lim (InArray xs # st) ValueOrEnd RBracket = close_value (PList xs) st"
| "parse_step lim st ValueOrEnd t = open_value lim t st"
| "parse_step lim (InObject d # st) KeyOrEnd RBrace = close_value (PDict d) st"
| "parse_step lim (InObject d # st) KeyOrEnd (Scalar (PStr k)) = Inr (InObject d # st, ColonAfter k)"
| "parse_step lim (InObject d # st) Key (Scalar (PStr k)) = Inr (InObject d # st, ColonAfter k)"
| "parse_step lim (InObject d # st) (ColonAfter k) Colon = Inr (InMember d k # st, Value)"
| "parse_step lim (InArray xs # st) CommaOrEnd Comma = Inr (InArray xs # st, Value)"
| "parse_step lim (InArray xs # st) CommaOrEnd RBracket = close_value (PList xs) st"
| "parse_step lim (InObject d # st) CommaOrEnd Comma = Inr (InObject d # st, Key)"
| "parse_step lim (InObject d # st) CommaOrEnd RBrace = close_value (PDict d) st"
| "parse_step lim st e t = Inl JSONDecodeError"

fun parse_tokens ::
  "interpreter \<Rightarrow> frame list \<Rightarrow> expect \<Rightarrow> token list \<Rightarrow> exn + py_value" where
  "parse_tokens lim st (Finished v) [] = (if st = [] then Inr v else Inl JSONDecodeError)"
| "parse_tokens lim st e [] = Inl JSONDecodeError"
| "parse_tokens lim st e (t # ts) =
     (case parse_step lim st e t of
        Inl x \<Rightarrow> Inl x
      | Inr (st', e') \<Rightarrow> parse_tokens lim st' e' ts)"

definition json_loads :: "interpreter \<Rightarrow> string \<Rightarrow> exn + py_value" where
  "json_loads lim s = parse_tokens lim [] Value (lex s)"

text \<open>
  The settings CPython starts with: a recursion limit of 1000, which no call of
  \<^verbatim>\<open>json.loads\<close> has more than, and a digit limit of 4300.
\<close>

definition cpython_defaults :: interpreter where
  "cpython_defaults = \<lparr>nesting_budget = 1000, int_max_str_digits = 4300\<rparr>"

section \<open>Response parsing (language.py)\<close>

text \<open>
  \<^verbatim>\<open>FunctionCallingLanguage.parse_response\<close>: the handler names \<^verbatim>\<open>json.JSONDecodeError\<close>
  only, so any other exception of the call passes through.
\<close>

definition parse_response :: "interpreter \<Rightarrow> string \<Rightarrow> exn + py_value" where
  "parse_response lim response =
     (case json_loads lim response of
        Inr v \<Rightarrow> Inr v
      | Inl JSONDecodeError \<Rightarrow>
          Inr (PDict [(''tool'', PStr ''terminate''), (''args'', PDict [(''message'', PStr response)])])
      | Inl e \<Rightarrow> Inl e)"


section \<open>Prompt construction (language.py)\<close>

record Goal =
  goal_name :: string
  goal_description :: string

record tool_entry =
  entry_type :: string
  entry_name :: string
  entry_description :: string
  entry_parameters :: schema

record Prompt =
  prompt_messages :: "message list"
  tools :: "tool_entry list"
  metadata :: "(string \<times> py_value) list"

definition format_goals :: "Goal list \<Rightarrow> message list" where
  "format_goals goals =
     (let sep = [CHR 0x0A] @ ''-------------------'' @ [CHR 0x0A];
          content = py_join [CHR 0x0A, CHR 0x0A]
                      (map (\<lambda>g. goal_name g @ '':'' @ sep @ goal_description g @ sep) goals)
      in [\<lparr>role = ''system'', content = content\<rparr>])"

definition format_memory :: "AgentMemory \<Rightarrow> message list" where
  "format_memory memory = map (\<lambda>msg. \<lparr>role = role msg, content = content msg\<rparr>) (messages memory)"

definition format_actions :: "Action list \<Rightarrow> tool_entry list" where
  "format_actions acts =
     map (\<lambda>action. \<lparr>entry_type = ''function'', entry_name = name action,
                     entry_description = take 1024 (description action),
                     entry_parameters = parameters action\<rparr>) acts"

definition construct_prompt :: "Action list \<Rightarrow> Goal list \<Rightarrow> AgentMemory \<Rightarrow> Prompt" where
  "construct_prompt acts goals memory =
     \<lparr>prompt_messages = format_goals goals @ format_memory memory,
      tools = format_actions acts, metadata = []\<rparr>"

section \<open>The orchestration loop (main.py)\<close>

text \<open>
  The model-completion capability: \<^verbatim>\<open>client.complete(prompt, model=model, max_tokens=1024)\<close>
  returns the raw reply or raises; \<open>Inl\<close> carries the \<^verbatim>\<open>str\<close> of the exception. It may
  answer differently at each call, so it is a function of the iteration number too. Each
  call is recorded as a \<open>Completed\<close> event of the world.
\<close>

type_synonym llm = "nat \<Rightarrow> Prompt \<Rightarrow> string \<Rightarrow> nat \<Rightarrow> string + string"

text \<open>
  Two functions of the Python runtime are parameters of the model: \<^verbatim>\<open>repr\<close> of a number
  or a container, and \<^verbatim>\<open>json.dumps\<close> of the dictionary
  \<^verbatim>\<open>{"tool": ..., "args": ..., "result": ...}\<close>, which raises when a tool's result cannot
  be serialised. \<open>py_str\<close> is \<^verbatim>\<open>str\<close>, and what an f-string puts for a value.
\<close>

record pylib =
  repr_of :: "py_value \<Rightarrow> string"
  json_dumps :: "py_value \<Rightarrow> kwargs \<Rightarrow> ExecutionRecord \<Rightarrow> exn + string"

fun py_str :: "pylib \<Rightarrow> py_value \<Rightarrow> string" where
  "py_str lib (PStr s) = s"
| "py_str lib PNone = ''None''"
| "py_str lib (PBool b) = (if b then ''True'' else ''False'')"
| "py_str lib v = repr_of lib v"

fun py_type_name :: "py_value \<Rightarrow> string" where
  "py_type_name PNone = ''NoneType''"
| "py_type_name (PBool b) = ''bool''"
| "py_type_name (PInt i) = ''int''"
| "py_type_name (PFloat f) = ''float''"
| "py_type_name (PStr s) = ''str''"
| "py_type_name (PList xs) = ''list''"
| "py_type_name (PDict d) = ''dict''"

definition not_found_message :: "string \<Rightarrow> string" where
  "not_found_message tname =
     ''Requested tool '' @ [CHR 0x27] @ tname @ [CHR 0x27] @ '' not found in registry.''"

fun completions :: "event list \<Rightarrow> nat" where
  "completions [] = 0"
| "completions (Completed # es) = Suc (completions es)"
| "completions (e # es) = completions es"

definition main_goals :: "Goal list" where
  "main_goals =
     [\<lparr>goal_name = ''Gather Information'',
       goal_description = ''Read project files and build a README.''\<rparr>,
      \<lparr>goal_name = ''Terminate'',
       goal_description = ''Call terminate when the README is ready.''\<rparr>]"

text \<open>
  The body of \<^verbatim>\<open>for iteration in range(1, max_iterations + 1)\<close>, by recursion over the
  iteration numbers still to run. \<open>Inr\<close> is the state when the loop ends (by exhaustion
  or by a \<^verbatim>\<open>break\<close>); \<open>Inl\<close> is an exception that leaves \<^verbatim>\<open>run_agent_loop\<close>: one
  that \<^verbatim>\<open>parse_response\<close> lets through, the \<^verbatim>\<open>AttributeError\<close> of \<^verbatim>\<open>parsed.get\<close>
  when the reply decodes to something that is no dictionary, the \<^verbatim>\<open>TypeError\<close> of a
  dictionary lookup with an unhashable tool name, or a failure of \<^verbatim>\<open>json.dumps\<close>.
\<close>

fun agent_loop ::
  "interpreter \<Rightarrow> pylib \<Rightarrow> llm \<Rightarrow> string \<Rightarrow> registry \<Rightarrow> Environment \<Rightarrow> Goal list \<Rightarrow> nat list
     \<Rightarrow> AgentMemory \<Rightarrow> world \<Rightarrow> exn + (AgentMemory \<times> world)" where
  "agent_loop lim lib client model reg env goals [] memory w = Inr (memory, w)"
| "agent_loop lim lib client model reg env goals (iteration # later) memory w =
     (let acts = get_actions reg;
          prompt = construct_prompt acts goals memory;
          w1 = w\<lparr>events := events w @ [Completed]\<rparr>
      in case client iteration prompt model 1024 of
           Inl e \<Rightarrow>
             (case add_message memory (PStr ''assistant'') (PStr (''[error] LLM call failed: '' @ e)) of
                (Inl x, m') \<Rightarrow> Inl x
              | (Inr u, m') \<Rightarrow> Inr (m', w1))
         | Inr raw_response \<Rightarrow>
             (case parse_response lim raw_response of
                Inl x \<Rightarrow> Inl x
              | Inr (PDict parsed) \<Rightarrow>
                  (let tool_name = (case dict_get parsed ''tool'' of None \<Rightarrow> PNone | Some t \<Rightarrow> t);
                       args = (case dict_get parsed ''args'' of Some (PDict a) \<Rightarrow> a | _ \<Rightarrow> [])
                   in if tool_name = PNone \<or> tool_name = PStr ''terminate''
                      then
                        (let message = (case dict_get args ''message'' of None \<Rightarrow> PNone | Some v \<Rightarrow> v)
                         in case add_message memory (PStr ''assistant'') (PStr (py_str lib message)) of
                              (Inl x, m') \<Rightarrow> Inl x
                            | (Inr u, m') \<Rightarrow> Inr (m', w1))
                      else
                        (case tool_name of
                           PList xs \<Rightarrow> Inl (TypeError (''unhashable type: '' @ [CHR 0x27] @ ''list'' @ [CHR 0x27]))
                         | PDict d \<Rightarrow> Inl (TypeError (''unhashable type: '' @ [CHR 0x27] @ ''dict'' @ [CHR 0x27]))
                         | _ \<Rightarrow>
                             (case (case tool_name of PStr n \<Rightarrow> get_action reg n | _ \<Rightarrow> None) of
                                None \<Rightarrow>
                                  (case add_message memory (PStr ''assistant'')
                                          (PStr (not_found_message (py_str lib tool_name))) of
                                     (Inl x, m') \<Rightarrow> Inl x
                                   | (Inr u, m') \<Rightarrow>
                                       agent_loop lim lib client model reg env goals later m' w1)
                              | Some action \<Rightarrow>
                                  (case execute_action env action args w1 of
                                     (exec_record, w2) \<Rightarrow>
                                       (case json_dumps lib tool_name args exec_record of
                                          Inl x \<Rightarrow> Inl x
                                        | Inr assistant_content \<Rightarrow>
                                            (case add_message memory (PStr ''assistant'')
                                                    (PStr assistant_content) of
                                               (Inl x, m') \<Rightarrow> Inl x
                                             | (Inr u, m') \<Rightarrow>
                                                 if terminal action then Inr (m', w2)
                                                 else agent_loop lim lib client model reg env goals
                                                        later m' w2))))))
              | Inr other \<Rightarrow>
                  Inl (AttributeError ([CHR 0x27] @ py_type_name other @ [CHR 0x27]
                                       @ '' object has no attribute '' @ [CHR 0x27] @ ''get''
                                       @ [CHR 0x27]))))"

definition run_agent_loop ::
  "interpreter \<Rightarrow> pylib \<Rightarrow> string \<Rightarrow> AgentMemory \<Rightarrow> registry \<Rightarrow> Environment \<Rightarrow> llm \<Rightarrow> string \<Rightarrow> int
     \<Rightarrow> world \<Rightarrow> exn + (AgentMemory \<times> world)" where
  "run_agent_loop lim lib task memory reg env client model max_iterations w =
     (case add_message memory (PStr ''user'') (PStr task) of
        (Inl x, m') \<Rightarrow> Inl x
      | (Inr u, m') \<Rightarrow>
          agent_loop lim lib client model reg env main_goals [1 ..< nat (max_iterations + 1)] m' w)"

text \<open>
  The tool a raw reply asks for, when it decodes to a dictionary whose \<^verbatim>\<open>"tool"\<close> is a
  string.
\<close>

definition requested_tool :: "interpreter \<Rightarrow> string \<Rightarrow> string option" where
  "requested_tool lim raw =
     (case parse_response lim raw of
        Inr (PDict d) \<Rightarrow> (case dict_get d ''tool'' of Some (PStr n) \<Rightarrow> Some n | _ \<Rightarrow> None)
      | _ \<Rightarrow> None)"

text \<open>
  \<open>requests_in_turn\<close> says of a list of tool names that they are, in order, what the
  model's replies asked for: the reply at each iteration answers the prompt built from
  the memory as it stands then, that is after the diagnostic messages for the names before.
\<close>

fun requests_in_turn ::
  "interpreter \<Rightarrow> llm \<Rightarrow> string \<Rightarrow> registry \<Rightarrow> Goal list \<Rightarrow> nat list \<Rightarrow> string list
     \<Rightarrow> AgentMemory \<Rightarrow> bool" where
  "requests_in_turn lim client model reg goals [] [] memory = True"
| "requests_in_turn lim client model reg goals (i # its) (n # ns) memory =
     (case client i (construct_prompt (get_actions reg) goals memory) model 1024 of
        Inl e \<Rightarrow> False
      | Inr raw \<Rightarrow>
          requested_tool lim raw = Some n
          \<and> requests_in_turn lim client model reg goals its ns
               (snd (add_message memory (PStr ''assistant'')
                       (PStr (''Requested tool '' @ [CHR 0x27] @ n @ [CHR 0x27]
                              @ '' not found in registry.'')))))"
| "requests_in_turn lim client model reg goals its ns memory = False"

text \<open>
  A stub of the runtime, and a stub model that asks for one unknown tool at the first
  call and for another one afterwards.
\<close>

definition stub_lib :: pylib where
  "stub_lib = \<lparr>repr_of = (\<lambda>v. ''<repr>''), json_dumps = (\<lambda>t a r. Inr ''<json>'')\<rparr>"

definition stub_client :: llm where
  \<open>stub_client =
     (\<lambda>i p m t. if i = 1 then Inr ''{"tool": "alpha", "args": {}}''
                else Inr ''{"tool": "beta"}'')\<close>

section \<open>Properties of the conversation memory\<close>

lemma add_message_str:
  "add_message m (PStr r) (PStr c) =
     (Inr (),
      m\<lparr>messages :=
          (if int (length (messages m)) + 1 > max_messages m
           then py_slice_from (messages m @ [\<lparr>role = r, content = c\<rparr>]) (- max_messages m)
           else messages m @ [\<lparr>role = r, content = c\<rparr>])\<rparr>)"
  by (simp add: add_message_def Let_def)

lemma add_message_max_messages:
  "max_messages (snd (add_message m r c)) = max_messages m"
  by (cases r; cases c) (simp_all add: add_message_def Let_def)

lemma py_slice_from_pos:
  "0 < k \<Longrightarrow> py_slice_from xs (- k) = last_n (nat k) xs"
  by (auto simp: py_slice_from_def last_n_def nat_diff_distrib' intro: arg_cong2[where f = drop])

lemma last_n_all: "length xs \<le> n \<Longrightarrow> last_n n xs = xs"
  by (simp add: last_n_def)

lemma drop_eqI: "a = b \<Longrightarrow> drop a xs = drop b xs"
  by simp

lemma last_n_append: "last_n n (last_n n xs @ ys) = last_n n (xs @ ys)"
proof (cases "n \<le> length xs")
  case True
  then show ?thesis
    by (auto simp: last_n_def intro!: drop_eqI)
next
  case False
  then show ?thesis by (simp add: last_n_def)
qed

lemma py_slice_from_drop: "\<exists>k. py_slice_from xs j = drop k xs"
  unfolding py_slice_from_def by (cases "j < 0") auto

lemma add_message_pos:
  assumes "0 < max_messages m"
  shows "messages (snd (add_message m (PStr r) (PStr c))) =
           last_n (nat (max_messages m)) (messages m @ [\<lparr>role = r, content = c\<rparr>])"
  using assms by (auto simp: add_message_str py_slice_from_pos last_n_all)

text \<open>
  With a capacity of at least one, a non-empty run of appends leaves the most recent
  \<open>max_messages\<close> entries, in the order they were appended.
\<close>

lemma add_messages_pos:
  assumes "0 < max_messages m" and "length (messages m) \<le> nat (max_messages m)"
  shows "messages (add_messages m xs) =
           last_n (nat (max_messages m)) (messages m @ map mk_message xs)
         \<and> max_messages (add_messages m xs) = max_messages m"
  using assms
proof (induction xs arbitrary: m)
  case Nil
  then show ?case by (simp add: last_n_all)
next
  case (Cons x xs)
  obtain r c where x: "x = (r, c)" by (cases x)
  let ?m' = "snd (add_message m (PStr r) (PStr c))"
  have mm: "max_messages ?m' = max_messages m"
    by (rule add_message_max_messages)
  have ms: "messages ?m' = last_n (nat (max_messages m)) (messages m @ [mk_message x])"
    using Cons.prems(1) by (simp add: add_message_pos x mk_message_def)
  have len: "length (messages ?m') \<le> nat (max_messages ?m')"
    by (simp add: ms mm last_n_def)
  have pos: "0 < max_messages ?m'" using Cons.prems(1) mm by simp
  have n0: "0 < nat (max_messages m)" using Cons.prems(1) by simp
  have "messages (add_messages ?m' xs) =
          last_n (nat (max_messages m)) (messages ?m' @ map mk_message xs)"
    using Cons.IH[OF pos len] mm by simp
  also have "\<dots> = last_n (nat (max_messages m)) ((messages m @ [mk_message x]) @ map mk_message xs)"
    unfolding ms by (simp add: last_n_append)
  finally show ?case
    using Cons.IH[OF pos len] mm by (simp add: x)
qed

text \<open>
  Claim C1. After every call of \<open>add_message\<close> the stored count is at most
  \<open>max_messages\<close> and the stored sequence is the most recent \<open>max_messages\<close> appends.
  The source trims with \<^verbatim>\<open>self.messages[-self.max_messages:]\<close>; for a capacity of zero
  that slice is \<^verbatim>\<open>self.messages[0:]\<close>, the whole list, so nothing is ever evicted:
  from any stored sequence one append leaves every old message and the new one, more
  than the capacity allows.
\<close>

theorem add_message_capacity_zero_keeps_all:
  "messages (snd (add_message \<lparr>max_messages = 0, messages = ms\<rparr> (PStr r) (PStr c)))
     = ms @ [\<lparr>role = r, content = c\<rparr>]
   \<and> int (length (messages (snd (add_message \<lparr>max_messages = 0, messages = ms\<rparr> (PStr r) (PStr c)))))
       > max_messages \<lparr>max_messages = 0, messages = ms\<rparr>"
  by (simp add: add_message_str py_slice_from_def)

theorem add_message_capacity_zero_keeps_all_witness:
  "messages (snd (add_message \<lparr>max_messages = 0, messages = []\<rparr> (PStr ''user'') (PStr ''a'')))
     = [\<lparr>role = ''user'', content = ''a''\<rparr>]
   \<and> int (length (messages (snd (add_message \<lparr>max_messages = 0, messages = []\<rparr>
         (PStr ''user'') (PStr ''a''))))) > 0"
  using add_message_capacity_zero_keeps_all [of "[]" "''user''" "''a''"] by simp


text \<open>
  Claim C9. \<open>add_message\<close> raises \<open>TypeError\<close> when the role or the content is not a
  string, and then leaves the memory as it was. With two strings it returns normally and
  keeps the capacity; the stored sequence is the old one with the new message appended
  while that fits the capacity; once a positive capacity is exceeded it is cut at the
  front to the last \<open>max_messages\<close> entries. A capacity of zero is exceeded by every
  append, and yet nothing is cut: the slice \<^verbatim>\<open>self.messages[-0:]\<close> is the whole list.
  Under a negative capacity the first \<open>- max_messages\<close> entries are dropped at every
  append.
\<close>

theorem add_message_exact:
  "(\<not> is_str r \<or> \<not> is_str c \<longrightarrow>
      (\<exists>e. fst (add_message m r c) = Inl (TypeError e)) \<and> snd (add_message m r c) = m)
   \<and> (\<forall>rs cs. r = PStr rs \<and> c = PStr cs \<longrightarrow>
        fst (add_message m r c) = Inr ()
        \<and> max_messages (snd (add_message m r c)) = max_messages m
        \<and> messages (snd (add_message m r c)) =
            (if int (length (messages m)) < max_messages m
               then messages m @ [\<lparr>role = rs, content = cs\<rparr>]
             else if 0 < max_messages m
               then last_n (nat (max_messages m)) (messages m @ [\<lparr>role = rs, content = cs\<rparr>])
             else if max_messages m = 0
               then messages m @ [\<lparr>role = rs, content = cs\<rparr>]
             else drop (nat (- max_messages m)) (messages m @ [\<lparr>role = rs, content = cs\<rparr>])))"
proof (intro conjI allI impI)
  assume "\<not> is_str r \<or> \<not> is_str c"
  then show "\<exists>e. fst (add_message m r c) = Inl (TypeError e)"
    and "snd (add_message m r c) = m"
    by (auto simp: add_message_def)
next
  fix rs cs
  assume rc: "r = PStr rs \<and> c = PStr cs"
  show "fst (add_message m r c) = Inr ()"
    using rc by (simp add: add_message_str)
  show "max_messages (snd (add_message m r c)) = max_messages m"
    by (rule add_message_max_messages)
  show "messages (snd (add_message m r c)) =
            (if int (length (messages m)) < max_messages m
               then messages m @ [\<lparr>role = rs, content = cs\<rparr>]
             else if 0 < max_messages m
               then last_n (nat (max_messages m)) (messages m @ [\<lparr>role = rs, content = cs\<rparr>])
             else if max_messages m = 0
               then messages m @ [\<lparr>role = rs, content = cs\<rparr>]
             else drop (nat (- max_messages m)) (messages m @ [\<lparr>role = rs, content = cs\<rparr>]))"
  proof (cases "0 < max_messages m")
    case True
    then show ?thesis
      using rc by (simp add: add_message_pos last_n_all)
  next
    case False
    then show ?thesis
      using rc by (auto simp: add_message_str py_slice_from_def)
  qed
qed

theorem add_message_exact_witness:
  "fst (add_message \<lparr>max_messages = 0, messages = [\<lparr>role = ''user'', content = ''a''\<rparr>]\<rparr>
         (PStr ''assistant'') (PStr ''b'')) = Inr ()
   \<and> messages (snd (add_message \<lparr>max_messages = 0, messages = [\<lparr>role = ''user'', content = ''a''\<rparr>]\<rparr>
         (PStr ''assistant'') (PStr ''b'')))
       = [\<lparr>role = ''user'', content = ''a''\<rparr>, \<lparr>role = ''assistant'', content = ''b''\<rparr>]
   \<and> fst (add_message \<lparr>max_messages = 2, messages = [\<lparr>role = ''user'', content = ''a''\<rparr>]\<rparr>
         (PInt 7) (PStr ''x'')) = Inl (TypeError ''Both 'role' and 'content' must be strings.'')
   \<and> snd (add_message \<lparr>max_messages = 2, messages = [\<lparr>role = ''user'', content = ''a''\<rparr>]\<rparr>
         (PInt 7) (PStr ''x'')) = \<lparr>max_messages = 2, messages = [\<lparr>role = ''user'', content = ''a''\<rparr>]\<rparr>
   \<and> messages (snd (add_message
         \<lparr>max_messages = 2,
          messages = [\<lparr>role = ''user'', content = ''a''\<rparr>, \<lparr>role = ''assistant'', content = ''b''\<rparr>]\<rparr>
         (PStr ''assistant'') (PStr ''c'')))
       = [\<lparr>role = ''assistant'', content = ''b''\<rparr>, \<lparr>role = ''assistant'', content = ''c''\<rparr>]
   \<and> messages (snd (add_message
         \<lparr>max_messages = - 1,
          messages = [\<lparr>role = ''user'', content = ''a''\<rparr>, \<lparr>role = ''assistant'', content = ''b''\<rparr>]\<rparr>
         (PStr ''assistant'') (PStr ''c'')))
       = [\<lparr>role = ''assistant'', content = ''b''\<rparr>, \<lparr>role = ''assistant'', content = ''c''\<rparr>]"
  using
    add_message_exact [of "PStr ''assistant''" "PStr ''b''"
      "\<lparr>max_messages = 0, messages = [\<lparr>role = ''user'', content = ''a''\<rparr>]\<rparr>"]
    add_message_exact [of "PInt 7" "PStr ''x''"
      "\<lparr>max_messages = 2, messages = [\<lparr>role = ''user'', content = ''a''\<rparr>]\<rparr>"]
    add_message_exact [of "PStr ''assistant''" "PStr ''c''"
      "\<lparr>max_messages = 2,
        messages = [\<lparr>role = ''user'', content = ''a''\<rparr>, \<lparr>role = ''assistant'', content = ''b''\<rparr>]\<rparr>"]
    add_message_exact [of "PStr ''assistant''" "PStr ''c''"
      "\<lparr>max_messages = - 1,
        messages = [\<lparr>role = ''user'', content = ''a''\<rparr>, \<lparr>role = ''assistant'', content = ''b''\<rparr>]\<rparr>"]
  by (simp add: add_message_def last_n_def)

section \<open>Properties of the execution environment\<close>

lemma validate_args_eq:
  "validate_args action args =
     (if missing_names action args = [] then None
      else Some (''Missing required parameters: '' @ py_repr_str_list (missing_names action args)))"
  by (simp add: validate_args_def missing_names_def required_names_def Let_def)

lemma missing_names_Nil:
  "missing_names action args = [] \<longleftrightarrow> set (required_names action) \<subseteq> set (dict_keys args)"
  by (auto simp: missing_names_def filter_empty_conv)

lemma execute_action_invalid:
  assumes "validate_args action args = Some e"
  shows "execute_action env action args w =
           (\<lparr>tool_executed = False, action_name = name action, args_used = args,
             result = PNone, error = Some e, traceback = None, timestamp = now w\<rparr>, w)"
  using assms by (simp add: execute_action_def)

lemma execute_action_dry:
  assumes "validate_args action args = None" and "dry_run env"
  shows "execute_action env action args w =
           (\<lparr>tool_executed = False, action_name = name action, args_used = args,
             result = PNone, error = None, traceback = None, timestamp = now w\<rparr>, w)"
  using assms by (simp add: execute_action_def)

lemma execute_action_raises:
  assumes "validate_args action args = None" and "\<not> dry_run env"
    and "func action args = Raises msg tb"
  shows "execute_action env action args w =
           (\<lparr>tool_executed = False, action_name = name action, args_used = args,
             result = PNone, error = Some msg, traceback = Some tb, timestamp = now w\<rparr>,
            w\<lparr>events := events w @ [Invoked (name action) args]\<rparr>)"
  using assms by (simp add: execute_action_def)

lemma execute_action_returns:
  assumes "validate_args action args = None" and "\<not> dry_run env"
    and "func action args = Returns res"
  shows "fst (execute_action env action args w) =
           \<lparr>tool_executed = True, action_name = name action, args_used = args,
             result = res, error = None, traceback = None, timestamp = now w\<rparr>"
  using assms by (simp add: execute_action_def Let_def)

lemma execute_action_cases:
  obtains (invalid) e where "validate_args action args = Some e"
  | (dry) "validate_args action args = None" "dry_run env"
  | (raises) msg tb where "validate_args action args = None" "\<not> dry_run env" "func action args = Raises msg tb"
  | (returns) res where "validate_args action args = None" "\<not> dry_run env" "func action args = Returns res"
  by (cases "validate_args action args"; cases "dry_run env"; cases "func action args") auto

text \<open>
  Claim C2, as stated, fails: validation comes before the dry-run test, so a dry run with
  a required argument missing returns the validation error, not a null error.
\<close>

theorem dry_run_error_not_always_null:
  "\<not> (\<forall>env action args w. dry_run env \<longrightarrow> error (fst (execute_action env action args w)) = None)"
proof
  assume h: "\<forall>env action args w. dry_run env \<longrightarrow> error (fst (execute_action env action args w)) = None"
  let ?env = "\<lparr>dry_run = True, on_post_execute = None, default_max_message_length = 2000\<rparr>"
  let ?act = "\<lparr>name = ''sample_add'', func = (\<lambda>a. Returns PNone), description = ''Add two numbers'',
               parameters = \<lparr>stype = Some ''object'', properties = Some [(''x'', ''integer'')],
                             required = Some [''x'']\<rparr>, terminal = False\<rparr>"
  have "error (fst (execute_action ?env ?act [] \<lparr>now = ''t'', events = []\<rparr>))
          = Some ''Missing required parameters: ['x']''"
    by (simp add: execute_action_def validate_args_def dict_keys_def py_repr_str_list_def
        py_repr_str_def py_repr_char_def Let_def)
  moreover have "error (fst (execute_action ?env ?act [] \<lparr>now = ''t'', events = []\<rparr>)) = None"
    using h by simp
  ultimately show False by simp
qed

text \<open>
  Claim C2, amended. In dry-run mode \<open>execute_action\<close> never calls the action's function
  (the trace of the world is unchanged) and the record has \<open>tool_executed = False\<close> and a null
  result, whatever the arguments; the error is null exactly when every required name is a
  key of the arguments, and otherwise it is the message listing the missing names.
\<close>

theorem dry_run_never_invokes:
  assumes "dry_run env"
  shows "events (snd (execute_action env action args w)) = events w
       \<and> \<not> tool_executed (fst (execute_action env action args w))
       \<and> result (fst (execute_action env action args w)) = PNone
       \<and> error (fst (execute_action env action args w)) =
            (if set (required_names action) \<subseteq> set (dict_keys args) then None
             else Some (''Missing required parameters: ''
                        @ py_repr_str_list (missing_names action args)))"
proof (cases "validate_args action args")
  case None
  then have "missing_names action args = []"
    by (simp add: validate_args_eq split: if_splits)
  then show ?thesis
    using None assms by (simp add: execute_action_dry missing_names_Nil)
next
  case (Some e)
  then have "missing_names action args \<noteq> []"
       and "e = ''Missing required parameters: '' @ py_repr_str_list (missing_names action args)"
    by (auto simp: validate_args_eq split: if_splits)
  then show ?thesis
    using Some by (simp add: execute_action_invalid missing_names_Nil)
qed

theorem dry_run_never_invokes_witness:
  "events (snd (execute_action
       \<lparr>dry_run = True, on_post_execute = None, default_max_message_length = 2000\<rparr>
       \<lparr>name = ''sample_add'', func = (\<lambda>a. Returns (PInt 4)), description = ''Add two numbers'',
        parameters = \<lparr>stype = Some ''object'', properties = Some [(''x'', ''integer'')],
                      required = Some [''x'']\<rparr>, terminal = False\<rparr>
       [(''x'', PInt 3)] \<lparr>now = ''t'', events = []\<rparr>)) = []
   \<and> error (fst (execute_action
       \<lparr>dry_run = True, on_post_execute = None, default_max_message_length = 2000\<rparr>
       \<lparr>name = ''sample_add'', func = (\<lambda>a. Returns (PInt 4)), description = ''Add two numbers'',
        parameters = \<lparr>stype = Some ''object'', properties = Some [(''x'', ''integer'')],
                      required = Some [''x'']\<rparr>, terminal = False\<rparr>
       [(''x'', PInt 3)] \<lparr>now = ''t'', events = []\<rparr>)) = None
   \<and> \<not> tool_executed (fst (execute_action
       \<lparr>dry_run = True, on_post_execute = None, default_max_message_length = 2000\<rparr>
       \<lparr>name = ''sample_add'', func = (\<lambda>a. Returns (PInt 4)), description = ''Add two numbers'',
        parameters = \<lparr>stype = Some ''object'', properties = Some [(''x'', ''integer'')],
                      required = Some [''x'']\<rparr>, terminal = False\<rparr>
       [(''x'', PInt 3)] \<lparr>now = ''t'', events = []\<rparr>))
   \<and> error (fst (execute_action
       \<lparr>dry_run = True, on_post_execute = None, default_max_message_length = 2000\<rparr>
       \<lparr>name = ''sample_add'', func = (\<lambda>a. Returns (PInt 4)), description = ''Add two numbers'',
        parameters = \<lparr>stype = Some ''object'', properties = Some [(''x'', ''integer'')],
                      required = Some [''x'']\<rparr>, terminal = False\<rparr>
       [(''y'', PInt 3)] \<lparr>now = ''t'', events = []\<rparr>))
       = Some ''Missing required parameters: ['x']''"
  using
    dry_run_never_invokes [of
      "\<lparr>dry_run = True, on_post_execute = None, default_max_message_length = 2000\<rparr>"
      "\<lparr>name = ''sample_add'', func = (\<lambda>a. Returns (PInt 4)), description = ''Add two numbers'',
        parameters = \<lparr>stype = Some ''object'', properties = Some [(''x'', ''integer'')],
                      required = Some [''x'']\<rparr>, terminal = False\<rparr>"
      "[(''x'', PInt 3)]" "\<lparr>now = ''t'', events = []\<rparr>"]
    dry_run_never_invokes [of
      "\<lparr>dry_run = True, on_post_execute = None, default_max_message_length = 2000\<rparr>"
      "\<lparr>name = ''sample_add'', func = (\<lambda>a. Returns (PInt 4)), description = ''Add two numbers'',
        parameters = \<lparr>stype = Some ''object'', properties = Some [(''x'', ''integer'')],
                      required = Some [''x'']\<rparr>, terminal = False\<rparr>"
      "[(''y'', PInt 3)]" "\<lparr>now = ''t'', events = []\<rparr>"]
  by (simp add: required_names_def missing_names_def dict_keys_def py_repr_str_list_def
      py_repr_str_def py_repr_char_def Let_def)

text \<open>
  Claim C4. When at least one required name is absent from the arguments,
  \<open>execute_action\<close> (whatever the dry-run flag, so in particular with \<open>dry_run = False\<close>)
  returns a record with \<open>tool_executed = False\<close> and the error message that lists exactly
  the absent required names, and the action's function is not called: the trace is
  unchanged.
\<close>

theorem missing_required_not_invoked:
  assumes "\<not> set (required_names action) \<subseteq> set (dict_keys args)"
  shows "\<not> tool_executed (fst (execute_action env action args w))
       \<and> missing_names action args \<noteq> []
       \<and> set (missing_names action args) = set (required_names action) - set (dict_keys args)
       \<and> error (fst (execute_action env action args w)) =
            Some (''Missing required parameters: '' @ py_repr_str_list (missing_names action args))
       \<and> events (snd (execute_action env action args w)) = events w
       \<and> invocations (name action) (events (snd (execute_action env action args w)))
            = invocations (name action) (events w)"
proof -
  have m: "missing_names action args \<noteq> []"
    using assms by (simp add: missing_names_Nil)
  then have v: "validate_args action args =
      Some (''Missing required parameters: '' @ py_repr_str_list (missing_names action args))"
    by (simp add: validate_args_eq)
  have s: "set (missing_names action args) = set (required_names action) - set (dict_keys args)"
    by (auto simp: missing_names_def)
  show ?thesis using m s by (simp add: execute_action_invalid [OF v])
qed

theorem missing_required_not_invoked_witness:
  "\<not> tool_executed (fst (execute_action
       \<lparr>dry_run = False, on_post_execute = None, default_max_message_length = 2000\<rparr>
       \<lparr>name = ''write_project_file'', func = (\<lambda>a. Returns PNone), description = ''Write'',
        parameters = \<lparr>stype = Some ''object'', properties = None,
                      required = Some [''name'', ''content'']\<rparr>, terminal = False\<rparr>
       [(''name'', PStr ''a.py'')] \<lparr>now = ''t'', events = []\<rparr>))
   \<and> error (fst (execute_action
       \<lparr>dry_run = False, on_post_execute = None, default_max_message_length = 2000\<rparr>
       \<lparr>name = ''write_project_file'', func = (\<lambda>a. Returns PNone), description = ''Write'',
        parameters = \<lparr>stype = Some ''object'', properties = None,
                      required = Some [''name'', ''content'']\<rparr>, terminal = False\<rparr>
       [(''name'', PStr ''a.py'')] \<lparr>now = ''t'', events = []\<rparr>))
       = Some ''Missing required parameters: ['content']''
   \<and> events (snd (execute_action
       \<lparr>dry_run = False, on_post_execute = None, default_max_message_length = 2000\<rparr>
       \<lparr>name = ''write_project_file'', func = (\<lambda>a. Returns PNone), description = ''Write'',
        parameters = \<lparr>stype = Some ''object'', properties = None,
                      required = Some [''name'', ''content'']\<rparr>, terminal = False\<rparr>
       [(''name'', PStr ''a.py'')] \<lparr>now = ''t'', events = []\<rparr>)) = []"
  using
    missing_required_not_invoked [of
      "\<lparr>name = ''write_project_file'', func = (\<lambda>a. Returns PNone), description = ''Write'',
        parameters = \<lparr>stype = Some ''object'', properties = None,
                      required = Some [''name'', ''content'']\<rparr>, terminal = False\<rparr>"
      "[(''name'', PStr ''a.py'')]"
      "\<lparr>dry_run = False, on_post_execute = None, default_max_message_length = 2000\<rparr>"
      "\<lparr>now = ''t'', events = []\<rparr>"]
  by (simp add: required_names_def missing_names_def dict_keys_def py_repr_str_list_def
      py_repr_str_def py_repr_char_def Let_def)

text \<open>
  Claim C3. Every record \<open>execute_action\<close> returns satisfies: executed implies no error,
  and an error implies not executed. When the action's function raises, the exception does
  not leave \<open>execute_action\<close>: the result is the record carrying the exception's text and
  traceback, with \<open>tool_executed = False\<close>.
\<close>

theorem record_invariant:
  "(tool_executed (fst (execute_action env action args w))
      \<longrightarrow> error (fst (execute_action env action args w)) = None)
   \<and> (error (fst (execute_action env action args w)) \<noteq> None
      \<longrightarrow> \<not> tool_executed (fst (execute_action env action args w)))
   \<and> (\<forall>msg tb. func action args = Raises msg tb \<and> validate_args action args = None \<and> \<not> dry_run env
        \<longrightarrow> \<not> tool_executed (fst (execute_action env action args w))
          \<and> error (fst (execute_action env action args w)) = Some msg
          \<and> traceback (fst (execute_action env action args w)) = Some tb
          \<and> action_name (fst (execute_action env action args w)) = name action)"
proof (cases rule: execute_action_cases [where action = action and args = args and env = env])
  case (invalid e)
  then show ?thesis by (simp add: execute_action_invalid)
next
  case dry
  then show ?thesis by (simp add: execute_action_dry)
next
  case (raises msg tb)
  then show ?thesis by (simp add: execute_action_raises)
next
  case (returns res)
  then show ?thesis by (simp add: execute_action_returns)
qed

theorem record_invariant_witness:
  "\<not> tool_executed (fst (execute_action
       \<lparr>dry_run = False, on_post_execute = None, default_max_message_length = 2000\<rparr>
       \<lparr>name = ''bad'', func = (\<lambda>a. Raises ''boom'' ''Traceback''), description = ''Always fails'',
        parameters = \<lparr>stype = Some ''object'', properties = Some [], required = Some []\<rparr>,
        terminal = False\<rparr>
       [] \<lparr>now = ''t'', events = []\<rparr>))
   \<and> error (fst (execute_action
       \<lparr>dry_run = False, on_post_execute = None, default_max_message_length = 2000\<rparr>
       \<lparr>name = ''bad'', func = (\<lambda>a. Raises ''boom'' ''Traceback''), description = ''Always fails'',
        parameters = \<lparr>stype = Some ''object'', properties = Some [], required = Some []\<rparr>,
        terminal = False\<rparr>
       [] \<lparr>now = ''t'', events = []\<rparr>)) = Some ''boom''
   \<and> traceback (fst (execute_action
       \<lparr>dry_run = False, on_post_execute = None, default_max_message_length = 2000\<rparr>
       \<lparr>name = ''bad'', func = (\<lambda>a. Raises ''boom'' ''Traceback''), description = ''Always fails'',
        parameters = \<lparr>stype = Some ''object'', properties = Some [], required = Some []\<rparr>,
        terminal = False\<rparr>
       [] \<lparr>now = ''t'', events = []\<rparr>)) = Some ''Traceback''
   \<and> tool_executed (fst (execute_action
       \<lparr>dry_run = False, on_post_execute = None, default_max_message_length = 2000\<rparr>
       \<lparr>name = ''ok'', func = (\<lambda>a. Returns (PInt 4)), description = ''Succeeds'',
        parameters = \<lparr>stype = Some ''object'', properties = Some [], required = Some []\<rparr>,
        terminal = False\<rparr>
       [] \<lparr>now = ''t'', events = []\<rparr>))
   \<and> error (fst (execute_action
       \<lparr>dry_run = False, on_post_execute = None, default_max_message_length = 2000\<rparr>
       \<lparr>name = ''ok'', func = (\<lambda>a. Returns (PInt 4)), description = ''Succeeds'',
        parameters = \<lparr>stype = Some ''object'', properties = Some [], required = Some []\<rparr>,
        terminal = False\<rparr>
       [] \<lparr>now = ''t'', events = []\<rparr>)) = None"
proof -
  have v: "validate_args
       \<lparr>name = ''bad'', func = (\<lambda>a. Raises ''boom'' ''Traceback''), description = ''Always fails'',
        parameters = \<lparr>stype = Some ''object'', properties = Some [], required = Some []\<rparr>,
        terminal = False\<rparr> [] = None"
    by (simp add: validate_args_def)
  have ex: "tool_executed (fst (execute_action
       \<lparr>dry_run = False, on_post_execute = None, default_max_message_length = 2000\<rparr>
       \<lparr>name = ''ok'', func = (\<lambda>a. Returns (PInt 4)), description = ''Succeeds'',
        parameters = \<lparr>stype = Some ''object'', properties = Some [], required = Some []\<rparr>,
        terminal = False\<rparr>
       [] \<lparr>now = ''t'', events = []\<rparr>))"
    by (simp add: execute_action_def validate_args_def)
  show ?thesis
    using v ex
      record_invariant [of
        "\<lparr>dry_run = False, on_post_execute = None, default_max_message_length = 2000\<rparr>"
        "\<lparr>name = ''bad'', func = (\<lambda>a. Raises ''boom'' ''Traceback''), description = ''Always fails'',
          parameters = \<lparr>stype = Some ''object'', properties = Some [], required = Some []\<rparr>,
          terminal = False\<rparr>"
        "[]" "\<lparr>now = ''t'', events = []\<rparr>"]
      record_invariant [of
        "\<lparr>dry_run = False, on_post_execute = None, default_max_message_length = 2000\<rparr>"
        "\<lparr>name = ''ok'', func = (\<lambda>a. Returns (PInt 4)), description = ''Succeeds'',
          parameters = \<lparr>stype = Some ''object'', properties = Some [], required = Some []\<rparr>,
          terminal = False\<rparr>"
        "[]" "\<lparr>now = ''t'', events = []\<rparr>"]
    by simp
qed

section \<open>Properties of the registry\<close>

lemma map_of_dict_set: "map_of (dict_set d k v) = (map_of d)(k \<mapsto> v)"
  by (induction d) (auto simp: fun_eq_iff)

lemma dict_set_fresh: "k \<notin> fst ` set d \<Longrightarrow> dict_set d k v = d @ [(k, v)]"
  by (induction d) auto

lemma derive_loop_closed:
  assumes "distinct (map param_name params)"
    and "set (map param_name params) \<inter> fst ` set ps = {}"
  shows "derive_loop params ps rq =
           (ps @ map (\<lambda>p. (param_name p, get_json_type (declared_type p))) (model_supplied params),
            rq @ map param_name (filter (\<lambda>p. \<not> has_default p) (model_supplied params)))"
  using assms
proof (induction params arbitrary: ps rq)
  case Nil
  then show ?case by (simp add: model_supplied_def)
next
  case (Cons p rest)
  show ?case
  proof (cases "param_name p \<in> set [''action_context'', ''action_agent'']")
    case True
    have "derive_loop (p # rest) ps rq = derive_loop rest ps rq"
      using True by simp
    moreover have "model_supplied (p # rest) = model_supplied rest"
      using True by (auto simp: model_supplied_def)
    moreover have "distinct (map param_name rest)"
      and "set (map param_name rest) \<inter> fst ` set ps = {}"
      using Cons.prems by auto
    ultimately show ?thesis using Cons.IH by simp
  next
    case False
    let ?ps' = "ps @ [(param_name p, get_json_type (declared_type p))]"
    have fresh: "param_name p \<notin> fst ` set ps" using Cons.prems(2) by auto
    have ds: "dict_set ps (param_name p) (get_json_type (declared_type p)) = ?ps'"
      by (rule dict_set_fresh [OF fresh])
    have ms: "model_supplied (p # rest) = p # model_supplied rest"
      using False by (auto simp: model_supplied_def)
    have d: "distinct (map param_name rest)" using Cons.prems(1) by simp
    have disj: "set (map param_name rest) \<inter> fst ` set ?ps' = {}"
      using Cons.prems by auto
    have step: "derive_loop (p # rest) ps rq =
                  derive_loop rest ?ps' (if \<not> has_default p then rq @ [param_name p] else rq)"
      using False ds by (simp add: declared_type_def Let_def)
    show ?thesis
      unfolding step Cons.IH [OF d disj] ms by simp
  qed
qed

text \<open>
  Claim C6. For a function registered without a parameter-schema override, the derived
  schema has one property per parameter other than \<open>action_context\<close> and \<open>action_agent\<close>,
  in signature order, typed by \<open>get_json_type\<close> of the declared type (\<open>str\<close> when there is
  no annotation); \<open>required\<close> lists exactly those of these parameters that have no default;
  and \<open>get_json_type\<close> maps \<open>str\<close>, \<open>int\<close>, \<open>float\<close>, \<open>bool\<close>, \<open>list\<close>, \<open>dict\<close> to
  string, integer, number, boolean, array, object and every other type to string. The
  parameter names of a Python signature are distinct.
\<close>

theorem derived_schema:
  assumes "distinct (map param_name (fn_params f))"
  shows "tool_parameters (get_tool_metadata f tname descr None term tgs) =
           \<lparr>stype = Some ''object'',
            properties = Some (map (\<lambda>p. (param_name p, get_json_type (declared_type p)))
                                   (model_supplied (fn_params f))),
            required = Some (map param_name
                               (filter (\<lambda>p. \<not> has_default p) (model_supplied (fn_params f))))\<rparr>
       \<and> set (map param_name (model_supplied (fn_params f)))
           = set (map param_name (fn_params f)) - {''action_context'', ''action_agent''}
       \<and> get_json_type Tstr = ''string'' \<and> get_json_type Tint = ''integer''
       \<and> get_json_type Tfloat = ''number'' \<and> get_json_type Tbool = ''boolean''
       \<and> get_json_type Tlist = ''array'' \<and> get_json_type Tdict = ''object''
       \<and> (\<forall>t. get_json_type (Tother t) = ''string'')"
proof -
  have "derive_loop (fn_params f) [] [] =
          (map (\<lambda>p. (param_name p, get_json_type (declared_type p))) (model_supplied (fn_params f)),
           map param_name (filter (\<lambda>p. \<not> has_default p) (model_supplied (fn_params f))))"
    using derive_loop_closed [OF assms, of "[]" "[]"] by simp
  moreover have "set (map param_name (model_supplied (fn_params f)))
           = set (map param_name (fn_params f)) - {''action_context'', ''action_agent''}"
    by (auto simp: model_supplied_def)
  ultimately show ?thesis
    by (simp add: get_tool_metadata_def derive_schema_def)
qed

theorem derived_schema_witness:
  "tool_parameters (get_tool_metadata
      \<lparr>fn_name = ''write_project_file'', fn_doc = Some ''Write content to a file.'',
       fn_params = [\<lparr>param_name = ''name'', annotation = Some Tstr, has_default = False\<rparr>,
                    \<lparr>param_name = ''action_context'', annotation = None, has_default = False\<rparr>,
                    \<lparr>param_name = ''content'', annotation = None, has_default = False\<rparr>,
                    \<lparr>param_name = ''lines'', annotation = Some Tlist, has_default = False\<rparr>,
                    \<lparr>param_name = ''paths'', annotation = Some (Tother ''List[str]''), has_default = True\<rparr>,
                    \<lparr>param_name = ''overwrite'', annotation = Some Tbool, has_default = True\<rparr>],
       fn_call = (\<lambda>a. Returns PNone)\<rparr> None None None False (Some [''file_operations'', ''write'']))
   = \<lparr>stype = Some ''object'',
      properties = Some [(''name'', ''string''), (''content'', ''string''), (''lines'', ''array''),
                         (''paths'', ''string''), (''overwrite'', ''boolean'')],
      required = Some [''name'', ''content'', ''lines'']\<rparr>"
  using derived_schema [of
      "\<lparr>fn_name = ''write_project_file'', fn_doc = Some ''Write content to a file.'',
       fn_params = [\<lparr>param_name = ''name'', annotation = Some Tstr, has_default = False\<rparr>,
                    \<lparr>param_name = ''action_context'', annotation = None, has_default = False\<rparr>,
                    \<lparr>param_name = ''content'', annotation = None, has_default = False\<rparr>,
                    \<lparr>param_name = ''lines'', annotation = Some Tlist, has_default = False\<rparr>,
                    \<lparr>param_name = ''paths'', annotation = Some (Tother ''List[str]''), has_default = True\<rparr>,
                    \<lparr>param_name = ''overwrite'', annotation = Some Tbool, has_default = True\<rparr>],
       fn_call = (\<lambda>a. Returns PNone)\<rparr>" None None False "Some [''file_operations'', ''write'']"]
  by (simp add: model_supplied_def declared_type_def)

lemma terminate_tool_register [simp]: "terminate_tool (register r a) = terminate_tool r"
  by (simp add: register_def)

lemma init_loop_terminate:
  assumes "distinct (map fst xs)"
  shows "terminate_tool (init_loop tgs tool_names xs r) =
           (case map_of xs ''terminate'' of None \<Rightarrow> terminate_tool r | Some meta \<Rightarrow> Some meta)"
  using assms
proof (induction xs arbitrary: r)
  case Nil
  then show ?case by simp
next
  case (Cons x xs)
  obtain n meta where x: "x = (n, meta)" by (cases x)
  have d: "distinct (map fst xs)" using Cons.prems by simp
  show ?case
  proof (cases "n = ''terminate''")
    case True
    then have "map_of xs ''terminate'' = None"
      using Cons.prems x by (auto simp: map_of_eq_None_iff)
    then show ?thesis
      using True x Cons.IH [OF d] by (simp add: Let_def)
  next
    case False
    then show ?thesis
      using x Cons.IH [OF d] by (simp add: Let_def split: option.splits)
  qed
qed

lemma get_action_register: "get_action (register r a) (name a) = Some a"
  by (simp add: get_action_def register_def dict_get_def map_of_dict_set)

lemma example_catalog_keys: "dict_keys (TOOLS example_catalog) = [''read_project_file'', ''terminate'']"
  by (simp add: example_catalog_def register_tool_def get_tool_metadata_def Let_def dict_keys_def
      read_project_file_fn_def terminate_fn_def)

lemma example_catalog_tools:
  "TOOLS example_catalog =
     [(''read_project_file'', get_tool_metadata read_project_file_fn None None None False (Some [''file_operations'', ''read''])),
      (''terminate'', get_tool_metadata terminate_fn None None None True (Some [''system'']))]"
  by (simp add: example_catalog_def register_tool_def get_tool_metadata_def Let_def
      read_project_file_fn_def terminate_fn_def)


text \<open>
  Claim C7. Whatever tag and name filters the registry is built with, it keeps the catalog
  entry named \<open>terminate\<close> in \<open>terminate_tool\<close>. \<open>register_terminate_tool\<close> raises (the
  \<open>RuntimeError\<close> of the source) exactly when the catalog has no such entry. When the
  catalog has one, the call succeeds, and afterwards the name \<open>terminate\<close> looks up an
  action with that name and with the function, the description, the parameter schema
  and the terminal flag of the catalog entry; every other name looks up what it did
  before. The keys of the catalog, a dictionary, are distinct.
\<close>

theorem terminate_registered:
  assumes "distinct (dict_keys (TOOLS cat))"
  shows "terminate_tool (PythonActionRegistry cat tgs tool_names) = dict_get (TOOLS cat) ''terminate''
       \<and> ((\<exists>e. register_terminate_tool (PythonActionRegistry cat tgs tool_names) = Inl e)
            \<longleftrightarrow> ''terminate'' \<notin> set (dict_keys (TOOLS cat)))
       \<and> (''terminate'' \<notin> set (dict_keys (TOOLS cat)) \<longrightarrow>
            register_terminate_tool (PythonActionRegistry cat tgs tool_names)
              = Inl (RuntimeError ''Terminate tool not found in registry.''))
       \<and> (\<forall>meta. dict_get (TOOLS cat) ''terminate'' = Some meta \<longrightarrow>
            (\<exists>r' a. register_terminate_tool (PythonActionRegistry cat tgs tool_names) = Inr r'
                 \<and> get_action r' ''terminate'' = Some a
                 \<and> name a = ''terminate''
                 \<and> func a = tool_function meta
                 \<and> description a = tool_description meta
                 \<and> parameters a = tool_parameters meta
                 \<and> terminal a = tool_terminal meta
                 \<and> terminate_tool r' = Some meta
                 \<and> (\<forall>n. n \<noteq> ''terminate'' \<longrightarrow>
                       get_action r' n = get_action (PythonActionRegistry cat tgs tool_names) n)))"
proof -
  let ?r = "PythonActionRegistry cat tgs tool_names"
  have t: "terminate_tool ?r = dict_get (TOOLS cat) ''terminate''"
    using init_loop_terminate [of "TOOLS cat" tgs tool_names "\<lparr>actions = [], terminate_tool = None\<rparr>"] assms
    by (simp add: PythonActionRegistry_def dict_get_def dict_keys_def split: option.splits)
  have n: "dict_get (TOOLS cat) ''terminate'' = None \<longleftrightarrow> ''terminate'' \<notin> set (dict_keys (TOOLS cat))"
    by (simp add: dict_get_def dict_keys_def map_of_eq_None_iff)
  have a: "(\<exists>e. register_terminate_tool ?r = Inl e) \<longleftrightarrow> ''terminate'' \<notin> set (dict_keys (TOOLS cat))"
    unfolding n [symmetric] t [symmetric]
    by (cases "terminate_tool ?r") (simp_all add: register_terminate_tool_def)
  have b: "register_terminate_tool ?r = Inl (RuntimeError ''Terminate tool not found in registry.'')"
    if "''terminate'' \<notin> set (dict_keys (TOOLS cat))"
    using that n t by (simp add: register_terminate_tool_def)
  have c: "\<exists>r' a. register_terminate_tool ?r = Inr r'
                 \<and> get_action r' ''terminate'' = Some a
                 \<and> name a = ''terminate''
                 \<and> func a = tool_function meta
                 \<and> description a = tool_description meta
                 \<and> parameters a = tool_parameters meta
                 \<and> terminal a = tool_terminal meta
                 \<and> terminate_tool r' = Some meta
                 \<and> (\<forall>n. n \<noteq> ''terminate'' \<longrightarrow> get_action r' n = get_action ?r n)"
    if m: "dict_get (TOOLS cat) ''terminate'' = Some meta" for meta
  proof -
    let ?a = "action_of_meta ''terminate'' meta"
    let ?r' = "register ?r ?a"
    have r: "register_terminate_tool ?r = Inr ?r'"
      using m t by (simp add: register_terminate_tool_def)
    have nm: "name ?a = ''terminate''" by (simp add: action_of_meta_def)
    have g: "get_action ?r' ''terminate'' = Some ?a"
      using get_action_register [of ?r ?a] nm by simp
    have o: "\<forall>n. n \<noteq> ''terminate'' \<longrightarrow> get_action ?r' n = get_action ?r n"
      by (simp add: get_action_def register_def dict_get_def map_of_dict_set nm)
    have tt: "terminate_tool ?r' = Some meta" using t m by simp
    have f: "func ?a = tool_function meta" "description ?a = tool_description meta"
      "parameters ?a = tool_parameters meta" "terminal ?a = tool_terminal meta"
      by (simp_all add: action_of_meta_def)
    show ?thesis
      using r g nm f tt o by blast
  qed
  show ?thesis using t a b c by blast
qed

theorem terminate_registered_witness:
  "get_action (PythonActionRegistry example_catalog (Some [''file_operations'']) None) ''terminate'' = None
   \<and> (\<exists>r' a. register_terminate_tool
                (PythonActionRegistry example_catalog (Some [''file_operations'']) None) = Inr r'
        \<and> get_action r' ''terminate'' = Some a
        \<and> name a = ''terminate''
        \<and> func a [(''message'', PStr ''done'')] = Returns (PStr ''bye'')
        \<and> description a = ''Terminate the agent.''
        \<and> parameters a = \<lparr>stype = Some ''object'', properties = Some [(''message'', ''string'')],
                            required = Some [''message'']\<rparr>
        \<and> terminal a = True
        \<and> map_option name (get_action r' ''read_project_file'') = Some ''read_project_file'')
   \<and> register_terminate_tool (PythonActionRegistry \<lparr>TOOLS = [], TOOLS_BY_TAG = []\<rparr> None None)
       = Inl (RuntimeError ''Terminate tool not found in registry.'')"
proof -
  let ?R = "PythonActionRegistry example_catalog (Some [''file_operations'']) None"
  let ?meta = "get_tool_metadata terminate_fn None None None True (Some [''system''])"
  have d: "distinct (dict_keys (TOOLS example_catalog))"
    by (simp add: example_catalog_keys)
  have g: "dict_get (TOOLS example_catalog) ''terminate'' = Some ?meta"
    by (simp add: example_catalog_tools dict_get_def)
  have e: "distinct (dict_keys (TOOLS \<lparr>TOOLS = [], TOOLS_BY_TAG = []\<rparr>))"
    by (simp add: dict_keys_def)
  have a0: "get_action ?R ''terminate'' = None"
    by (simp add: PythonActionRegistry_def example_catalog_tools mentions_def any_tag_def
        get_tool_metadata_def register_def get_action_def dict_get_def action_of_meta_def Let_def)
  have a1: "map_option name (get_action ?R ''read_project_file'') = Some ''read_project_file''"
    by (simp add: PythonActionRegistry_def example_catalog_tools mentions_def any_tag_def
        get_tool_metadata_def register_def get_action_def dict_get_def action_of_meta_def Let_def)
  have m: "tool_function ?meta [(''message'', PStr ''done'')] = Returns (PStr ''bye'')"
    "tool_description ?meta = ''Terminate the agent.''"
    "tool_parameters ?meta = \<lparr>stype = Some ''object'', properties = Some [(''message'', ''string'')],
                            required = Some [''message'']\<rparr>"
    "tool_terminal ?meta = True"
    by (simp_all add: get_tool_metadata_def terminate_fn_def derive_schema_def Let_def
        py_strip_def py_isspace_def)
  obtain r' a where r: "register_terminate_tool ?R = Inr r'"
    and ga: "get_action r' ''terminate'' = Some a"
    and f: "name a = ''terminate''" "func a = tool_function ?meta"
      "description a = tool_description ?meta" "parameters a = tool_parameters ?meta"
      "terminal a = tool_terminal ?meta"
    and o: "\<forall>n. n \<noteq> ''terminate'' \<longrightarrow> get_action r' n = get_action ?R n"
    using terminate_registered [OF d, of "Some [''file_operations'']" None] g by blast
  have o1: "map_option name (get_action r' ''read_project_file'') = Some ''read_project_file''"
    using o a1 by simp
  have x: "\<exists>r' a. register_terminate_tool ?R = Inr r'
        \<and> get_action r' ''terminate'' = Some a
        \<and> name a = ''terminate''
        \<and> func a [(''message'', PStr ''done'')] = Returns (PStr ''bye'')
        \<and> description a = ''Terminate the agent.''
        \<and> parameters a = \<lparr>stype = Some ''object'', properties = Some [(''message'', ''string'')],
                            required = Some [''message'']\<rparr>
        \<and> terminal a = True
        \<and> map_option name (get_action r' ''read_project_file'') = Some ''read_project_file''"
    using r ga f m o1 by (intro exI [of _ r'] exI [of _ a]) simp
  have y: "register_terminate_tool (PythonActionRegistry \<lparr>TOOLS = [], TOOLS_BY_TAG = []\<rparr> None None)
       = Inl (RuntimeError ''Terminate tool not found in registry.'')"
    using terminate_registered [OF e, of None None] by (simp add: dict_keys_def)
  show ?thesis using a0 x y by simp
qed

section \<open>Properties of response parsing\<close>
















































section \<open>Properties of the orchestration loop\<close>

lemma requested_toolD:
  assumes "requested_tool lim raw = Some n"
  obtains d where "parse_response lim raw = Inr (PDict d)" and "dict_get d ''tool'' = Some (PStr n)"
  using assms
  by (auto simp: requested_tool_def split: sum.splits py_value.splits option.splits)

lemma agent_loop_unknown_step:
  assumes c: "client i (construct_prompt (get_actions reg) goals memory) model 1024 = Inr raw"
    and r: "requested_tool lim raw = Some n"
    and n: "n \<noteq> ''terminate''" "get_action reg n = None"
  shows "agent_loop lim lib client model reg env goals (i # later) memory w =
           agent_loop lim lib client model reg env goals later
             (snd (add_message memory (PStr ''assistant'')
                     (PStr (''Requested tool '' @ [CHR 0x27] @ n @ [CHR 0x27]
                            @ '' not found in registry.''))))
             (w\<lparr>events := events w @ [Completed]\<rparr>)"
proof -
  obtain d where d: "parse_response lim raw = Inr (PDict d)" "dict_get d ''tool'' = Some (PStr n)"
    using r by (rule requested_toolD)
  show ?thesis
    using c d n by (simp add: Let_def add_message_str not_found_message_def)
qed

lemma agent_loop_unknown:
  assumes "\<And>i p. \<exists>raw n. client i p model 1024 = Inr raw \<and> requested_tool lim raw = Some n
                      \<and> n \<noteq> ''terminate'' \<and> get_action reg n = None"
  shows "\<exists>names. length names = length its
           \<and> requests_in_turn lim client model reg goals its names memory
           \<and> (\<forall>n \<in> set names. n \<noteq> ''terminate'' \<and> get_action reg n = None)
           \<and> agent_loop lim lib client model reg env goals its memory w =
               Inr (add_messages memory
                      (map (\<lambda>n. (''assistant'', ''Requested tool '' @ [CHR 0x27] @ n @ [CHR 0x27]
                                                @ '' not found in registry.'')) names),
                    w\<lparr>events := events w @ replicate (length its) Completed\<rparr>)"
proof (induction its arbitrary: memory w)
  case Nil
  show ?case by (rule exI [of _ "[]"]) simp
next
  case (Cons i later)
  let ?text = "\<lambda>n. ''Requested tool '' @ [CHR 0x27] @ n @ [CHR 0x27] @ '' not found in registry.''"
  obtain raw n where c: "client i (construct_prompt (get_actions reg) goals memory) model 1024 = Inr raw"
    and r: "requested_tool lim raw = Some n" and n: "n \<noteq> ''terminate''" "get_action reg n = None"
    using assms by blast
  let ?m = "snd (add_message memory (PStr ''assistant'') (PStr (?text n)))"
  let ?w = "w\<lparr>events := events w @ [Completed]\<rparr>"
  obtain names where l: "length names = length later"
    and q: "requests_in_turn lim client model reg goals later names ?m"
    and u: "\<forall>n \<in> set names. n \<noteq> ''terminate'' \<and> get_action reg n = None"
    and e: "agent_loop lim lib client model reg env goals later ?m ?w =
              Inr (add_messages ?m (map (\<lambda>n. (''assistant'', ?text n)) names),
                   ?w\<lparr>events := events ?w @ replicate (length later) Completed\<rparr>)"
    using Cons.IH [of ?m ?w] by blast
  have ev: "?w\<lparr>events := events ?w @ replicate (length later) Completed\<rparr>
              = w\<lparr>events := events w @ replicate (length (i # later)) Completed\<rparr>"
    by (simp add: replicate_app_Cons_same)
  have step: "agent_loop lim lib client model reg env goals (i # later) memory w =
                agent_loop lim lib client model reg env goals later ?m ?w"
    using c r n by (rule agent_loop_unknown_step)
  have "agent_loop lim lib client model reg env goals (i # later) memory w =
          Inr (add_messages memory (map (\<lambda>n. (''assistant'', ?text n)) (n # names)),
               w\<lparr>events := events w @ replicate (length (i # later)) Completed\<rparr>)"
    unfolding step e ev by simp
  moreover have "length (n # names) = length (i # later)" using l by simp
  moreover have "\<forall>x \<in> set (n # names). x \<noteq> ''terminate'' \<and> get_action reg x = None"
    using u n by simp
  moreover have "requests_in_turn lim client model reg goals (i # later) (n # names) memory"
    using c r q by simp
  ultimately show ?case by blast
qed

lemma completions_append: "completions (es @ fs) = completions es + completions fs"
  by (induction es rule: completions.induct) simp_all

lemma completions_replicate: "completions (replicate k Completed) = k"
  by (induction k) simp_all

lemma invocations_append: "invocations a (es @ fs) = invocations a es + invocations a fs"
  by (induction a es rule: invocations.induct) simp_all

lemma invocations_replicate: "invocations a (replicate k Completed) = 0"
  by (induction k) simp_all

text \<open>The stub model: its two replies, and that neither tool is registered.\<close>

lemma stub_alpha: \<open>requested_tool cpython_defaults ''{"tool": "alpha", "args": {}}'' = Some ''alpha''\<close>
proof -
  have \<open>parse_response cpython_defaults ''{"tool": "alpha", "args": {}}''
          = Inr (PDict [(''tool'', PStr ''alpha''), (''args'', PDict [])])\<close>
    by code_simp
  then show ?thesis by (simp add: requested_tool_def dict_get_def)
qed

lemma stub_beta: \<open>requested_tool cpython_defaults ''{"tool": "beta"}'' = Some ''beta''\<close>
proof -
  have \<open>parse_response cpython_defaults ''{"tool": "beta"}'' = Inr (PDict [(''tool'', PStr ''beta'')])\<close>
    by code_simp
  then show ?thesis by (simp add: requested_tool_def dict_get_def)
qed

lemma stub_unknown:
  "get_action (PythonActionRegistry example_catalog None None) ''alpha'' = None"
  "get_action (PythonActionRegistry example_catalog None None) ''beta'' = None"
  by (simp_all add: PythonActionRegistry_def example_catalog_tools mentions_def any_tag_def
      register_def get_action_def dict_get_def action_of_meta_def Let_def)

lemma stub_first:
  "agent_loop cpython_defaults stub_lib stub_client ''gpt-4o''
      (PythonActionRegistry example_catalog None None) env goals (Suc 0 # later) memory w =
   agent_loop cpython_defaults stub_lib stub_client ''gpt-4o''
      (PythonActionRegistry example_catalog None None) env goals later
      (snd (add_message memory (PStr ''assistant'')
              (PStr (''Requested tool '' @ [CHR 0x27] @ ''alpha'' @ [CHR 0x27]
                     @ '' not found in registry.''))))
      (w\<lparr>events := events w @ [Completed]\<rparr>)"
  by (rule agent_loop_unknown_step [where raw = \<open>''{"tool": "alpha", "args": {}}''\<close>])
     (simp_all add: stub_client_def stub_alpha stub_unknown)

lemma stub_later:
  "i \<noteq> Suc 0 \<Longrightarrow>
   agent_loop cpython_defaults stub_lib stub_client ''gpt-4o''
      (PythonActionRegistry example_catalog None None) env goals (i # later) memory w =
   agent_loop cpython_defaults stub_lib stub_client ''gpt-4o''
      (PythonActionRegistry example_catalog None None) env goals later
      (snd (add_message memory (PStr ''assistant'')
              (PStr (''Requested tool '' @ [CHR 0x27] @ ''beta'' @ [CHR 0x27]
                     @ '' not found in registry.''))))
      (w\<lparr>events := events w @ [Completed]\<rparr>)"
  by (rule agent_loop_unknown_step [where raw = \<open>''{"tool": "beta"}''\<close>])
     (simp_all add: stub_client_def stub_beta stub_unknown)

text \<open>
  Claim C8. Let every call of the model succeed with a reply that asks for a tool which
  is not in the registry and is not \<open>terminate\<close>. Then \<open>run_agent_loop\<close> returns
  normally; it has called the model once per iteration, \<open>nat max_iterations\<close> times in
  all (that is \<open>max_iterations\<close> itself when the ceiling is not negative); no tool was
  invoked; and there is one name per iteration, the tool that the reply of that
  iteration asked for, such that the memory is what appending the user task and then,
  in order, the message \<^verbatim>\<open>Requested tool '<name>' not found in registry.\<close> for each of
  these names leaves.
\<close>

theorem loop_ceiling:
  assumes "\<And>i p. \<exists>raw n. client i p model 1024 = Inr raw \<and> requested_tool lim raw = Some n
                      \<and> n \<noteq> ''terminate'' \<and> get_action reg n = None"
  shows "\<exists>names memory' w'.
           run_agent_loop lim lib task memory reg env client model max_iterations w = Inr (memory', w')
           \<and> length names = nat max_iterations
           \<and> requests_in_turn lim client model reg main_goals [1 ..< nat (max_iterations + 1)] names
                (snd (add_message memory (PStr ''user'') (PStr task)))
           \<and> (\<forall>n \<in> set names. n \<noteq> ''terminate'' \<and> get_action reg n = None)
           \<and> memory' = add_messages memory
                ((''user'', task)
                 # map (\<lambda>n. (''assistant'', ''Requested tool '' @ [CHR 0x27] @ n @ [CHR 0x27]
                                            @ '' not found in registry.'')) names)
           \<and> events w' = events w @ replicate (nat max_iterations) Completed
           \<and> completions (events w') = completions (events w) + nat max_iterations
           \<and> (\<forall>a. invocations a (events w') = invocations a (events w))"
proof -
  let ?text = "\<lambda>n. ''Requested tool '' @ [CHR 0x27] @ n @ [CHR 0x27] @ '' not found in registry.''"
  let ?m = "snd (add_message memory (PStr ''user'') (PStr task))"
  let ?its = "[1 ..< nat (max_iterations + 1)]"
  have len: "length ?its = nat max_iterations" by auto
  have "\<exists>names. length names = length ?its
           \<and> requests_in_turn lim client model reg main_goals ?its names ?m
           \<and> (\<forall>n \<in> set names. n \<noteq> ''terminate'' \<and> get_action reg n = None)
           \<and> agent_loop lim lib client model reg env main_goals ?its ?m w =
               Inr (add_messages ?m (map (\<lambda>n. (''assistant'', ?text n)) names),
                    w\<lparr>events := events w @ replicate (length ?its) Completed\<rparr>)"
    by (rule agent_loop_unknown) (rule assms)
  then obtain names where l: "length names = length ?its"
    and q: "requests_in_turn lim client model reg main_goals ?its names ?m"
    and u: "\<forall>n \<in> set names. n \<noteq> ''terminate'' \<and> get_action reg n = None"
    and e: "agent_loop lim lib client model reg env main_goals ?its ?m w =
              Inr (add_messages ?m (map (\<lambda>n. (''assistant'', ?text n)) names),
                   w\<lparr>events := events w @ replicate (length ?its) Completed\<rparr>)"
    by blast
  let ?w' = "w\<lparr>events := events w @ replicate (nat max_iterations) Completed\<rparr>"
  have run: "run_agent_loop lim lib task memory reg env client model max_iterations w =
               Inr (add_messages memory ((''user'', task) # map (\<lambda>n. (''assistant'', ?text n)) names), ?w')"
    using e len by (simp add: run_agent_loop_def add_message_str)
  have "length names = nat max_iterations" using l len by simp
  moreover have "events ?w' = events w @ replicate (nat max_iterations) Completed" by simp
  moreover have "completions (events ?w') = completions (events w) + nat max_iterations"
    by (simp add: completions_append completions_replicate)
  moreover have "\<forall>a. invocations a (events ?w') = invocations a (events w)"
    by (simp add: invocations_append invocations_replicate)
  ultimately show ?thesis using run u q by blast
qed

theorem loop_ceiling_witness:
  "run_agent_loop cpython_defaults stub_lib ''Write a README'' \<lparr>max_messages = 20, messages = []\<rparr>
     (PythonActionRegistry example_catalog None None)
     \<lparr>dry_run = False, on_post_execute = None, default_max_message_length = 2000\<rparr>
     stub_client ''gpt-4o'' 3 \<lparr>now = ''t'', events = []\<rparr>
   = Inr (\<lparr>max_messages = 20,
            messages = [\<lparr>role = ''user'', content = ''Write a README''\<rparr>,
                        \<lparr>role = ''assistant'', content = ''Requested tool 'alpha' not found in registry.''\<rparr>,
                        \<lparr>role = ''assistant'', content = ''Requested tool 'beta' not found in registry.''\<rparr>,
                        \<lparr>role = ''assistant'', content = ''Requested tool 'beta' not found in registry.''\<rparr>]\<rparr>,
          \<lparr>now = ''t'', events = [Completed, Completed, Completed]\<rparr>)
   \<and> (\<exists>(names :: string list) memory' w'.
         run_agent_loop cpython_defaults stub_lib ''Write a README'' \<lparr>max_messages = 20, messages = []\<rparr>
           (PythonActionRegistry example_catalog None None)
           \<lparr>dry_run = False, on_post_execute = None, default_max_message_length = 2000\<rparr>
           stub_client ''gpt-4o'' 3 \<lparr>now = ''t'', events = []\<rparr> = Inr (memory', w')
         \<and> length names = 3 \<and> completions (events w') = 3)"
proof -
  let ?reg = "PythonActionRegistry example_catalog None None"
  have hyp: "\<exists>raw n. stub_client i p ''gpt-4o'' 1024 = Inr raw
               \<and> requested_tool cpython_defaults raw = Some n
               \<and> n \<noteq> ''terminate'' \<and> get_action ?reg n = None" for i p
    using stub_alpha stub_beta stub_unknown by (cases "i = 1") (simp_all add: stub_client_def)
  have its: "[1 ..< nat (3 + 1)] = [Suc 0, 2, 3]"
    by (simp add: upt_rec)
  have concrete: "run_agent_loop cpython_defaults stub_lib ''Write a README''
     \<lparr>max_messages = 20, messages = []\<rparr> ?reg
     \<lparr>dry_run = False, on_post_execute = None, default_max_message_length = 2000\<rparr>
     stub_client ''gpt-4o'' 3 \<lparr>now = ''t'', events = []\<rparr>
   = Inr (\<lparr>max_messages = 20,
            messages = [\<lparr>role = ''user'', content = ''Write a README''\<rparr>,
                        \<lparr>role = ''assistant'', content = ''Requested tool 'alpha' not found in registry.''\<rparr>,
                        \<lparr>role = ''assistant'', content = ''Requested tool 'beta' not found in registry.''\<rparr>,
                        \<lparr>role = ''assistant'', content = ''Requested tool 'beta' not found in registry.''\<rparr>]\<rparr>,
          \<lparr>now = ''t'', events = [Completed, Completed, Completed]\<rparr>)"
    unfolding run_agent_loop_def its
    by (simp add: stub_first stub_later add_message_str del: agent_loop.simps(2))
  obtain names :: "string list" and memory' w' where
    r: "run_agent_loop cpython_defaults stub_lib ''Write a README'' \<lparr>max_messages = 20, messages = []\<rparr> ?reg
           \<lparr>dry_run = False, on_post_execute = None, default_max_message_length = 2000\<rparr>
           stub_client ''gpt-4o'' 3 \<lparr>now = ''t'', events = []\<rparr> = Inr (memory', w')"
    and l: "length names = nat 3"
    and c: "completions (events w') = completions (events \<lparr>now = ''t'', events = []\<rparr>) + nat 3"
    using loop_ceiling [where client = stub_client and model = "''gpt-4o''" and reg = ?reg
        and lim = cpython_defaults
        and lib = stub_lib and task = "''Write a README''"
        and memory = "\<lparr>max_messages = 20, messages = []\<rparr>"
        and env = "\<lparr>dry_run = False, on_post_execute = None, default_max_message_length = 2000\<rparr>"
        and max_iterations = 3 and w = "\<lparr>now = ''t'', events = []\<rparr>", OF hyp]
    by blast
  have l3: "length names = 3" using l by simp
  have c3: "completions (events w') = 3" using c by simp
  have "\<exists>(names :: string list) memory' w'.
         run_agent_loop cpython_defaults stub_lib ''Write a README'' \<lparr>max_messages = 20, messages = []\<rparr> ?reg
           \<lparr>dry_run = False, on_post_execute = None, default_max_message_length = 2000\<rparr>
           stub_client ''gpt-4o'' 3 \<lparr>now = ''t'', events = []\<rparr> = Inr (memory', w')
         \<and> length names = 3 \<and> completions (events w') = 3"
    using r l3 c3 by blast
  with concrete show ?thesis by (rule conjI)
qed

end
